theory Spec2Isabelle
  imports Main "HOL-Library.Char_ord" "HOL-Library.List_Lexorder"
begin

section \<open>Python values, exceptions and dictionaries\<close>

text \<open>
  The values that flow through \<^verbatim>\<open>pinax/api/resource.py\<close>. A domain object (a model
  instance) is its attribute dictionary; a related manager, the value of a collection
  accessor, holds the instances its \<^verbatim>\<open>all()\<close> returns; \<open>PSave\<close> is the function
  \<^verbatim>\<open>save\<close> that \<^verbatim>\<open>populate\<close> defines, with the contents of the two variables it
  closes over besides \<^verbatim>\<open>obj\<close>: \<^verbatim>\<open>accessor_name\<close> and \<^verbatim>\<open>qs\<close>.
\<close>

datatype pyval =
    PNone
  | PInt int
  | PStr string
  | PObj "(string \<times> pyval) list"
  | PManager "(string \<times> pyval) list list"
  | PSave string "(string \<times> pyval) list list"

type_synonym inst = "(string \<times> pyval) list"

text \<open>
  The exceptions the module raises or lets through. \<open>ValidationError\<close> carries the
  dictionary it is built from; \<open>SerializationError\<close> and \<open>RuntimeError\<close> their message.
\<close>

datatype error =
    ValidationError "(string \<times> string) list"
  | SerializationError string
  | RuntimeError string
  | AttributeError
  | KeyError
  | TypeError
  | FieldDoesNotExist

text \<open>
  A Python dictionary keeps insertion order: assigning to a key that is present replaces
  the value where it stands, a new key goes to the end.
\<close>

fun dict_set :: "('k \<times> 'v) list \<Rightarrow> 'k \<Rightarrow> 'v \<Rightarrow> ('k \<times> 'v) list" where
  "dict_set [] k v = [(k, v)]"
| "dict_set ((k', v') # kvs) k v =
     (if k' = k then (k, v) # kvs else (k', v') # dict_set kvs k v)"

text \<open>
  \<^verbatim>\<open>getattr(obj, name)\<close> and \<^verbatim>\<open>setattr(obj, name, v)\<close> read and write the attribute
  dictionary; only an instance has attributes here and a missing one raises. This is
  what Python does with a plain attribute: a column, the storage attribute of a foreign
  key (\<^verbatim>\<open>author_id\<close>), a name that is no field (\<^verbatim>\<open>save_relationships\<close>). The name
  of a relation is bound to a descriptor of the model class. The entry under a to-one
  relation (\<^verbatim>\<open>author\<close>) is the related object the instance holds in its cache, which
  an assignment to the storage attribute does not touch; what a model instance without
  that cache derives from the storage attribute is not modelled. The entry under a
  collection accessor is its related manager. An assignment to the name of a relation
  runs the descriptor on a model instance and is a plain write here: the dictionary is
  exact for the plain attributes only.
\<close>

fun getattr :: "pyval \<Rightarrow> string \<Rightarrow> error + pyval" where
  "getattr (PObj d) name = (case map_of d name of None \<Rightarrow> Inl AttributeError | Some v \<Rightarrow> Inr v)"
| "getattr _ name = Inl AttributeError"

definition setattr :: "inst \<Rightarrow> string \<Rightarrow> pyval \<Rightarrow> inst" where
  "setattr obj name v = dict_set obj name v"

text \<open>\<^verbatim>\<open>x.all()\<close>: a related manager returns its members, anything else has no \<^verbatim>\<open>all\<close>.\<close>

fun py_all :: "pyval \<Rightarrow> error + inst list" where
  "py_all (PManager ms) = Inr ms"
| "py_all _ = Inl AttributeError"

subsection \<open>\<^verbatim>\<open>str\<close>, \<^verbatim>\<open>join\<close>, \<^verbatim>\<open>split\<close>\<close>

definition digit_char :: "nat \<Rightarrow> char" where
  "digit_char n = char_of (48 + n)"

function str_of_nat :: "nat \<Rightarrow> string" where
  "str_of_nat n =
     (if n < 10 then [digit_char n] else str_of_nat (n div 10) @ [digit_char (n mod 10)])"
  by pat_completeness auto
termination
  by (relation "measure (\<lambda>n. n)") auto

definition str_of_int :: "int \<Rightarrow> string" where
  "str_of_int i = (if i < 0 then CHR ''-'' # str_of_nat (nat (- i)) else str_of_nat (nat i))"

text \<open>
  \<^verbatim>\<open>str(x)\<close>, which \<^verbatim>\<open>format\<close> applies too. What \<^verbatim>\<open>str\<close> gives for an instance, a
  manager or a function is decided by classes outside this module; the model renders
  them by a fixed name, and no theorem below depends on it.
\<close>

fun py_str :: "pyval \<Rightarrow> string" where
  "py_str PNone = ''None''"
| "py_str (PInt i) = str_of_int i"
| "py_str (PStr s) = s"
| "py_str (PObj d) = ''<object>''"
| "py_str (PManager ms) = ''<manager>''"
| "py_str (PSave a q) = ''<function save>''"

fun join :: "string \<Rightarrow> string list \<Rightarrow> string" where
  "join sep [] = []"
| "join sep [s] = s"
| "join sep (s # t # ss) = s @ sep @ join sep (t # ss)"

text \<open>
  An include path is a string, or the empty list that \<^verbatim>\<open>resolve_include\<close> substitutes
  for the rest of a path without a dot.
\<close>

datatype path = PathStr string | PathEmptyList

text \<open>
  \<^verbatim>\<open>head, rest = path.split(".", 1)\<close> with its \<^verbatim>\<open>except ValueError\<close>: a path with a dot
  is cut at the first one, a path without one is the head and the rest is \<^verbatim>\<open>[]\<close>.
\<close>

definition split_path :: "string \<Rightarrow> string \<times> path" where
  "split_path s =
     (if CHR ''.'' \<in> set s
      then (takeWhile (\<lambda>c. c \<noteq> CHR ''.'') s, PathStr (tl (dropWhile (\<lambda>c. c \<noteq> CHR ''.'') s)))
      else (s, PathEmptyList))"

section \<open>The schema: resource classes, relationships, viewsets, models\<close>

text \<open>
  A related model is used through its default manager only: \<^verbatim>\<open>get(pk=...)\<close> and
  \<^verbatim>\<open>filter(pk__in=...)\<close>. The persistence layer is not part of the module; the manager
  is a table from the value a lookup by primary key is made with to the instance it
  finds.
\<close>

type_synonym manager = "(pyval \<times> inst) list"

text \<open>
  Modelled from the spec: the persistence collaborator's \<^verbatim>\<open>fetchByPrimaryKey(kind, id)\<close>,
  which gives the object or NotFound (\<^verbatim>\<open>get\<close> raises \<^verbatim>\<open>ObjectDoesNotExist\<close>).
\<close>

definition manager_get :: "manager \<Rightarrow> pyval \<Rightarrow> inst option" where
  "manager_get m pk = map_of m pk"

text \<open>
  Modelled from the spec: the persistence collaborator's
  \<^verbatim>\<open>fetchManyByPrimaryKeys(kind, idSet)\<close>, which gives the objects whose key is in the set.
\<close>

definition manager_filter_pk_in :: "manager \<Rightarrow> pyval list \<Rightarrow> inst list" where
  "manager_filter_pk_in m given = map snd (filter (\<lambda>(pk, row). pk \<in> set given) m)"

text \<open>
  What \<^verbatim>\<open>_meta.get_field\<close> returns. A forward field has \<^verbatim>\<open>name\<close>, \<^verbatim>\<open>attname\<close> and
  \<^verbatim>\<open>rel\<close>, which is \<^verbatim>\<open>None\<close> for a plain column and otherwise gives the related model as
  \<^verbatim>\<open>rel.to\<close> and \<^verbatim>\<open>rel.model\<close>. A reverse relation has \<^verbatim>\<open>name\<close>, \<^verbatim>\<open>field.model\<close> and
  \<^verbatim>\<open>get_accessor_name()\<close>, and neither \<^verbatim>\<open>attname\<close> nor \<^verbatim>\<open>rel\<close>.
\<close>

record remote =
  rel_to :: manager
  rel_model :: manager

datatype field =
    Field string string "remote option"
  | ForeignObjectRel string string manager

fun field_name :: "field \<Rightarrow> string" where
  "field_name (Field n a r) = n"
| "field_name (ForeignObjectRel n acc m) = n"

fun field_attname :: "field \<Rightarrow> error + string" where
  "field_attname (Field n a r) = Inr a"
| "field_attname (ForeignObjectRel n acc m) = Inl AttributeError"

fun field_rel :: "field \<Rightarrow> error + remote" where
  "field_rel (Field n a (Some r)) = Inr r"
| "field_rel (Field n a None) = Inl AttributeError"
| "field_rel (ForeignObjectRel n acc m) = Inl AttributeError"

fun field_field_model :: "field \<Rightarrow> error + manager" where
  "field_field_model (ForeignObjectRel n acc m) = Inr m"
| "field_field_model (Field n a r) = Inl AttributeError"

fun field_get_accessor_name :: "field \<Rightarrow> error + string" where
  "field_get_accessor_name (ForeignObjectRel n acc m) = Inr acc"
| "field_get_accessor_name (Field n a r) = Inl AttributeError"

text \<open>
  \<^verbatim>\<open>cls.model\<close>: \<^verbatim>\<open>cls.model()\<close> gives a new instance, \<^verbatim>\<open>_meta.get_field\<close> finds a field
  by name or raises, \<^verbatim>\<open>_meta.related_objects\<close> lists the reverse relations.
\<close>

record model_class =
  new_instance :: inst
  meta_fields :: "field list"
  related_objects :: "field list"

definition get_field :: "model_class \<Rightarrow> string \<Rightarrow> error + field" where
  "get_field m k =
     (case find (\<lambda>f. field_name f = k) (meta_fields m) of
        None \<Rightarrow> Inl FieldDoesNotExist
      | Some f \<Rightarrow> Inr f)"

text \<open>
  A \<^verbatim>\<open>Resource\<close> subclass with its class attributes. \<^verbatim>\<open>model\<close> and the \<^verbatim>\<open>id\<close>
  property are what a concrete subclass adds (the base class has neither); \<open>rid\<close> maps
  the wrapped object to the value of \<^verbatim>\<open>self.id\<close>. A relationship holds its target
  class, \<^verbatim>\<open>collection\<close> and \<^verbatim>\<open>attr\<close>. A bound viewset is used through \<^verbatim>\<open>parent\<close>, which
  \<^verbatim>\<open>get_self_link\<close> treats as a resource class, \<^verbatim>\<open>url.lookup["field"]\<close> and
  \<^verbatim>\<open>url.base_name\<close>.
\<close>

datatype resource_class =
  ResourceClass
    (api_type: string)
    (attributes: "string list")
    (relationships: "(string \<times> rel) list")
    (bound_viewset: "viewset option")
    (model: model_class)
    (rid: "pyval \<Rightarrow> pyval")
and rel =
  Rel (resource_class: resource_class) (collection: bool) (attr: "string option")
and viewset =
  Viewset (parent: "resource_class option") (lookup_field: string) (base_name: string)

datatype resource = Resource (rclass: resource_class) (robj: pyval)

section \<open>Identifier and self link\<close>

record ident =
  id_type :: string
  id_id :: string

definition get_identifier :: "resource \<Rightarrow> ident" where
  "get_identifier r = \<lparr>id_type = api_type (rclass r), id_id = py_str (rid (rclass r) (robj r))\<rparr>"

text \<open>
  The nested function \<^verbatim>\<open>resolve\<close> of \<^verbatim>\<open>get_self_link\<close>. Its state is the nonlocal
  \<^verbatim>\<open>obj\<close> (\<^verbatim>\<open>None\<close> at first) and the dictionary \<^verbatim>\<open>kwargs\<close>; \<open>self_obj\<close> is
  \<^verbatim>\<open>self.obj\<close>. The check of \<^verbatim>\<open>bound_viewset\<close> and the call on the parent come first,
  then this level reads and sets \<^verbatim>\<open>obj\<close>.
\<close>

function resolve :: "pyval \<Rightarrow> resource_class \<Rightarrow> pyval \<times> (string \<times> string) list
    \<Rightarrow> error + pyval \<times> (string \<times> string) list" where
  "resolve self_obj r st =
     (case bound_viewset r of
        None \<Rightarrow> Inl (RuntimeError ''cannot generate link without being bound to a viewset'')
      | Some viewset \<Rightarrow>
          (case (case parent viewset of None \<Rightarrow> Inr st | Some p \<Rightarrow> resolve self_obj p st) of
             Inl e \<Rightarrow> Inl e
           | Inr (obj, kwargs) \<Rightarrow>
               (case (if obj = PNone then Inr self_obj else getattr obj (lookup_field viewset)) of
                  Inl e \<Rightarrow> Inl e
                | Inr obj' \<Rightarrow>
                    Inr (obj', dict_set kwargs (lookup_field viewset) (py_str (rid r obj'))))))"
  by pat_completeness auto
termination
proof (relation "measure (\<lambda>(self_obj, r, st). size r)", goal_cases)
  case 1
  show ?case by simp
next
  case (2 self_obj r st viewset p)
  then show ?case by (cases r; cases viewset) simp
qed

declare resolve.simps [simp del]

text \<open>
  \<^verbatim>\<open>get_self_link\<close>. \<open>reverse\<close> is Django's URL reversal, \<open>request\<close> the optional
  request, used through \<^verbatim>\<open>build_absolute_uri\<close> only.
\<close>

definition get_self_link :: "(string \<Rightarrow> (string \<times> string) list \<Rightarrow> string) \<Rightarrow> resource
    \<Rightarrow> (string \<Rightarrow> string) option \<Rightarrow> error + string" where
  "get_self_link reverse self request =
     (case resolve (robj self) (rclass self) (PNone, []) of
        Inl e \<Rightarrow> Inl e
      | Inr (obj, kwargs) \<Rightarrow>
          (case bound_viewset (rclass self) of
             None \<Rightarrow> Inl AttributeError
           | Some viewset \<Rightarrow>
               (let url = reverse (base_name viewset @ ''-detail'') kwargs
                in case request of
                     None \<Rightarrow> Inr url
                   | Some build_absolute_uri \<Rightarrow> Inr (build_absolute_uri url))))"

section \<open>Populate\<close>

text \<open>
  The payload: \<^verbatim>\<open>data["attributes"]\<close> (\<open>None\<close> when the key is missing) and
  \<^verbatim>\<open>data.get("relationships", {})\<close>, both in the order of the dictionary. Of a
  relationship's value only \<^verbatim>\<open>v["data"]\<close> is read, and of a resource identifier only its
  \<^verbatim>\<open>"id"\<close>: \<open>DataNull\<close> is \<^verbatim>\<open>null\<close>, \<open>DataOne i\<close> one identifier with id \<open>i\<close>,
  \<open>DataMany is\<close> a list of identifiers with these ids.
\<close>

datatype rel_data = DataNull | DataOne pyval | DataMany "pyval list"

record payload =
  p_attributes :: "(string \<times> pyval) list option"
  p_relationships :: "(string \<times> rel_data) list option"

text \<open>\<^verbatim>\<open>v["data"]["id"]\<close>: subscripting \<^verbatim>\<open>None\<close> or a list by a string is a TypeError.\<close>

fun data_id :: "rel_data \<Rightarrow> error + pyval" where
  "data_id (DataOne i) = Inr i"
| "data_id DataNull = Inl TypeError"
| "data_id (DataMany is) = Inl TypeError"

text \<open>
  \<^verbatim>\<open>set(map(itemgetter("id"), v["data"]))\<close>, the set as a list without duplicates.
  Iterating \<^verbatim>\<open>None\<close> is a TypeError, and so is iterating one identifier: its keys are
  strings, which \<^verbatim>\<open>itemgetter("id")\<close> cannot subscript.
\<close>

fun data_ids :: "rel_data \<Rightarrow> error + pyval list" where
  "data_ids (DataMany is) = Inr (remdups is)"
| "data_ids DataNull = Inl TypeError"
| "data_ids (DataOne i) = Inl TypeError"

text \<open>The first loop: \<^verbatim>\<open>setattr(obj, get_field(k).attname, v)\<close> for every attribute.\<close>

fun populate_attributes :: "model_class \<Rightarrow> (string \<times> pyval) list \<Rightarrow> inst
    \<Rightarrow> error option \<times> inst" where
  "populate_attributes m [] obj = (None, obj)"
| "populate_attributes m ((k, v) # kvs) obj =
     (case get_field m k of
        Inl e \<Rightarrow> (Some e, obj)
      | Inr f \<Rightarrow>
          (case field_attname f of
             Inl e \<Rightarrow> (Some e, obj)
           | Inr a \<Rightarrow> populate_attributes m kvs (setattr obj a v)))"

text \<open>
  The state of the second loop: the object, and whether this call has assigned
  \<^verbatim>\<open>obj.save_relationships\<close>. Every \<^verbatim>\<open>save\<close> of one call closes over the same
  variables \<^verbatim>\<open>accessor_name\<close> and \<^verbatim>\<open>qs\<close> of \<^verbatim>\<open>populate\<close>, so assigning them changes
  what an attached \<^verbatim>\<open>save\<close> sees: \<open>rebind\<close>.
\<close>

record pstate =
  ps_obj :: inst
  ps_attached :: bool

definition rebind :: "pstate \<Rightarrow> string \<Rightarrow> inst list \<Rightarrow> pstate" where
  "rebind st accessor_name qs =
     (if ps_attached st
      then (case map_of (ps_obj st) ''save_relationships'' of
              Some (PSave a q) \<Rightarrow>
                st\<lparr>ps_obj := setattr (ps_obj st) ''save_relationships'' (PSave accessor_name qs)\<rparr>
            | _ \<Rightarrow> st)
      else st)"

text \<open>\<^verbatim>\<open>set(map(attrgetter("id"), qs))\<close>: every fetched instance must have an \<^verbatim>\<open>id\<close>.\<close>

fun found_ids :: "inst list \<Rightarrow> error + pyval list" where
  "found_ids [] = Inr []"
| "found_ids (row # rows) =
     (case getattr (PObj row) ''id'' of
        Inl e \<Rightarrow> Inl e
      | Inr i \<Rightarrow> (case found_ids rows of Inl e \<Rightarrow> Inl e | Inr is \<Rightarrow> Inr (i # is)))"

fun the_str :: "pyval \<Rightarrow> string" where
  "the_str (PStr s) = s"
| "the_str v = []"

fun is_str :: "pyval \<Rightarrow> bool" where
  "is_str (PStr s) = True"
| "is_str v = False"

text \<open>
  \<^verbatim>\<open>", ".join(sorted(missing))\<close>: \<^verbatim>\<open>join\<close> takes strings only (and \<^verbatim>\<open>sorted\<close> cannot
  compare a string with another value).
\<close>

definition join_sorted :: "pyval list \<Rightarrow> error + string" where
  "join_sorted missing =
     (if list_all is_str missing then Inr (join '', '' (sort (map the_str missing)))
      else Inl TypeError)"

definition one_message :: "string \<Rightarrow> pyval \<Rightarrow> string" where
  "one_message k i =
     ''Relationship \"'' @ k @ ''\" object ID '' @ py_str i @ '' does not exist''"

definition many_message :: "string \<Rightarrow> string \<Rightarrow> string" where
  "many_message k ids =
     ''Relationship \"'' @ k @ ''\" object IDs '' @ ids @ '' do not exist''"

text \<open>The branch \<^verbatim>\<open>if not rel.collection\<close> for the relationship \<open>k\<close> stored under \<open>a\<close>.\<close>

definition populate_one :: "resource_class \<Rightarrow> pstate \<Rightarrow> string \<Rightarrow> string \<Rightarrow> rel_data
    \<Rightarrow> error option \<times> pstate" where
  "populate_one cls st k a v =
     (case get_field (model cls) a of
        Inl e \<Rightarrow> (Some e, st)
      | Inr f \<Rightarrow>
          (case field_rel f of
             Inl e \<Rightarrow> (Some e, st)
           | Inr r \<Rightarrow>
               (case data_id v of
                  Inl e \<Rightarrow> (Some e, st)
                | Inr i \<Rightarrow>
                    (case manager_get (rel_to r) i of
                       None \<Rightarrow> (Some (ValidationError [(k, one_message k i)]), st)
                     | Some o' \<Rightarrow>
                         (case field_attname f of
                            Inl e \<Rightarrow> (Some e, st)
                          | Inr an \<Rightarrow> (None, st\<lparr>ps_obj := setattr (ps_obj st) an (PObj o')\<rparr>))))))"

text \<open>
  Lines 63 to 68: the related model and the accessor name, from the reverse relation
  when the field is one of \<^verbatim>\<open>related_objects\<close>, from the forward field otherwise.
\<close>

definition related_accessor :: "model_class \<Rightarrow> field \<Rightarrow> error + manager \<times> string" where
  "related_accessor m f =
     (if f \<in> set (related_objects m)
      then (case field_field_model f of
              Inl e \<Rightarrow> Inl e
            | Inr related \<Rightarrow>
                (case field_get_accessor_name f of
                   Inl e \<Rightarrow> Inl e
                 | Inr accessor_name \<Rightarrow> Inr (related, accessor_name)))
      else (case field_rel f of
              Inl e \<Rightarrow> Inl e
            | Inr r \<Rightarrow> Inr (rel_model r, field_name f)))"

text \<open>The \<^verbatim>\<open>else\<close> branch, for a collection.\<close>

definition populate_many :: "resource_class \<Rightarrow> pstate \<Rightarrow> string \<Rightarrow> string \<Rightarrow> rel_data
    \<Rightarrow> error option \<times> pstate" where
  "populate_many cls st k a v =
     (case data_ids v of
        Inl e \<Rightarrow> (Some e, st)
      | Inr given \<Rightarrow>
          (case get_field (model cls) a of
             Inl e \<Rightarrow> (Some e, st)
           | Inr f \<Rightarrow>
               (case related_accessor (model cls) f of
                  Inl e \<Rightarrow> (Some e, st)
                | Inr (related, accessor_name) \<Rightarrow>
                    (let qs = manager_filter_pk_in related given;
                         st1 = rebind st accessor_name qs
                     in case found_ids qs of
                          Inl e \<Rightarrow> (Some e, st1)
                        | Inr found \<Rightarrow>
                            (let missing = filter (\<lambda>i. i \<notin> set found) given
                             in if missing \<noteq> []
                                then (case join_sorted missing of
                                        Inl e \<Rightarrow> (Some e, st1)
                                      | Inr ids \<Rightarrow>
                                          (Some (ValidationError [(k, many_message k ids)]), st1))
                                else (None,
                                      \<lparr>ps_obj = setattr (ps_obj st1) ''save_relationships''
                                                 (PSave accessor_name qs),
                                       ps_attached = True\<rparr>))))))"

text \<open>One round of the second loop, and the loop.\<close>

definition populate_relationship :: "resource_class \<Rightarrow> pstate \<Rightarrow> string \<times> rel_data
    \<Rightarrow> error option \<times> pstate" where
  "populate_relationship cls st kv =
     (case map_of (relationships cls) (fst kv) of
        None \<Rightarrow> (Some KeyError, st)
      | Some rel \<Rightarrow>
          (let a = (case attr rel of Some a' \<Rightarrow> a' | None \<Rightarrow> fst kv)
           in if \<not> collection rel then populate_one cls st (fst kv) a (snd kv)
              else populate_many cls st (fst kv) a (snd kv)))"

fun populate_relationships :: "resource_class \<Rightarrow> (string \<times> rel_data) list \<Rightarrow> pstate
    \<Rightarrow> error option \<times> pstate" where
  "populate_relationships cls [] st = (None, st)"
| "populate_relationships cls (kv # kvs) st =
     (case populate_relationship cls st kv of
        (Some e, st') \<Rightarrow> (Some e, st')
      | (None, st') \<Rightarrow> populate_relationships cls kvs st')"

text \<open>
  \<^verbatim>\<open>populate\<close>. The result is the exception or the resource, together with the object
  as the call leaves it: the object passed in, or the new one.
\<close>

definition populate :: "resource_class \<Rightarrow> payload \<Rightarrow> inst option \<Rightarrow> (error + resource) \<times> inst" where
  "populate cls data obj =
     (let obj0 = (case obj of None \<Rightarrow> new_instance (model cls) | Some o' \<Rightarrow> o')
      in case p_attributes data of
           None \<Rightarrow> (Inl KeyError, obj0)
         | Some kvs \<Rightarrow>
             (case populate_attributes (model cls) kvs obj0 of
                (Some e, obj1) \<Rightarrow> (Inl e, obj1)
              | (None, obj1) \<Rightarrow>
                  (case populate_relationships cls
                          (case p_relationships data of None \<Rightarrow> [] | Some rs \<Rightarrow> rs)
                          \<lparr>ps_obj = obj1, ps_attached = False\<rparr> of
                     (Some e, st) \<Rightarrow> (Inl e, ps_obj st)
                   | (None, st) \<Rightarrow> (Inr (Resource cls (PObj (ps_obj st))), ps_obj st))))"

text \<open>
  Modelled from the spec: the collection accessor's \<^verbatim>\<open>add\<close>, which is the related
  manager's and not part of the module: it appends the fetched targets to the collection.
\<close>

definition manager_add :: "inst list \<Rightarrow> inst list \<Rightarrow> inst list" where
  "manager_add ms qs = ms @ qs"

text \<open>
  The deferred write. \<open>save obj accessor_name qs self parent_arg\<close> is a call of the closure
  \<^verbatim>\<open>save(self, parent=None)\<close>, where \<open>obj\<close> is the populated object as it is at the time
  of the call; the result is the parent after \<^verbatim>\<open>getattr(parent, accessor_name).add(*qs)\<close>.
\<close>

definition save :: "inst \<Rightarrow> string \<Rightarrow> inst list \<Rightarrow> pyval \<Rightarrow> pyval \<Rightarrow> error + pyval" where
  "save obj accessor_name qs self parent_arg =
     (let parent' = (if parent_arg = PNone then PObj obj else parent_arg)
      in case getattr parent' accessor_name of
           Inl e \<Rightarrow> Inl e
         | Inr (PManager ms) \<Rightarrow>
             (case parent' of
                PObj d \<Rightarrow> Inr (PObj (setattr d accessor_name (PManager (manager_add ms qs))))
              | _ \<Rightarrow> Inl AttributeError)
         | Inr _ \<Rightarrow> Inl AttributeError)"

text \<open>
  \<^verbatim>\<open>obj.save_relationships(*args)\<close>: the attribute is a plain function set on the
  instance, so nothing is bound and the first argument is \<^verbatim>\<open>self\<close>.
\<close>

fun call_save_relationships :: "inst \<Rightarrow> pyval list \<Rightarrow> error + pyval" where
  "call_save_relationships obj args =
     (case getattr (PObj obj) ''save_relationships'' of
        Inl e \<Rightarrow> Inl e
      | Inr (PSave accessor_name qs) \<Rightarrow>
          (case args of
             [self] \<Rightarrow> save obj accessor_name qs self PNone
           | [self, parent_arg] \<Rightarrow> save obj accessor_name qs self parent_arg
           | _ \<Rightarrow> Inl TypeError)
      | Inr _ \<Rightarrow> Inl TypeError)"

section \<open>Serialization and includes\<close>

text \<open>
  The \<^verbatim>\<open>included\<close> argument: its \<^verbatim>\<open>paths\<close> and the resources added so far. Its class
  is not part of the module.
\<close>

record included =
  paths :: "string list"
  members :: "resource list"

text \<open>
  Modelled from the spec: the \<^verbatim>\<open>add\<close> of the IncludeSet, an accumulator keyed by
  Identifier: adding the same identifier twice is a no-op, and the order is that of
  insertion.
\<close>

definition included_add :: "included \<Rightarrow> resource \<Rightarrow> included" where
  "included_add inc r =
     (if get_identifier r \<in> set (map get_identifier (members inc)) then inc
      else inc\<lparr>members := members inc @ [r]\<rparr>)"

text \<open>
  \<^verbatim>\<open>resolve_include\<close> and its \<^verbatim>\<open>for\<close> loop. The recursive call passes \<^verbatim>\<open>resource\<close>
  and \<^verbatim>\<open>rest\<close>; on the empty list \<^verbatim>\<open>path.split\<close> is an AttributeError, which the
  \<^verbatim>\<open>except ValueError\<close> does not catch.
\<close>

function resolve_include :: "resource \<Rightarrow> path \<Rightarrow> included \<Rightarrow> error option \<times> included"
and resolve_include_loop :: "resource \<Rightarrow> path \<Rightarrow> rel \<Rightarrow> inst list \<Rightarrow> included
    \<Rightarrow> error option \<times> included" where
  "resolve_include resource PathEmptyList inc = (Some AttributeError, inc)"
| "resolve_include resource (PathStr s) inc =
     (let head = fst (split_path s); rest = snd (split_path s)
      in case map_of (relationships (rclass resource)) head of
           None \<Rightarrow>
             (Some (SerializationError
                      ([CHR 0x27] @ head @ [CHR 0x27] @ '' is not a valid relationship to include'')),
              inc)
         | Some rel \<Rightarrow>
             (case getattr (robj resource) head of
                Inl e \<Rightarrow> (Some e, inc)
              | Inr v \<Rightarrow>
                  (case py_all v of
                     Inl e \<Rightarrow> (Some e, inc)
                   | Inr objs \<Rightarrow> resolve_include_loop resource rest rel objs inc)))"
| "resolve_include_loop resource rest rel [] inc = (None, inc)"
| "resolve_include_loop resource rest rel (obj # objs) inc =
     (case resolve_include resource rest inc of
        (Some e, inc') \<Rightarrow> (Some e, inc')
      | (None, inc') \<Rightarrow>
          resolve_include_loop resource rest rel objs
            (included_add inc' (Resource (resource_class rel) (PObj obj))))"
  by pat_completeness auto
termination
proof (relation "measures
    [\<lambda>x. case x of Inl (r, p, i) \<Rightarrow> (case p of PathStr s \<Rightarrow> Suc (length s) | PathEmptyList \<Rightarrow> 0)
               | Inr (r, p, rl, os, i) \<Rightarrow> (case p of PathStr s \<Rightarrow> Suc (length s) | PathEmptyList \<Rightarrow> 0),
     \<lambda>x. case x of Inl _ \<Rightarrow> 0 | Inr (r, p, rl, os, i) \<Rightarrow> Suc (length os)]", goal_cases)
  case 1
  show ?case by simp
next
  case (2 resource s inc head rest rel v objs)
  have "length (dropWhile (\<lambda>c. c \<noteq> CHR ''.'') s) \<le> length s"
    by (rule length_dropWhile_le)
  with 2 show ?case by (auto simp: split_path_def split: path.splits if_splits)
next
  case 3
  then show ?case by simp
next
  case 4
  then show ?case by simp
qed

declare resolve_include.simps [simp del]

text \<open>\<^verbatim>\<open>for path in included.paths: resolve_include(self, path, included)\<close>.\<close>

fun resolve_includes :: "resource \<Rightarrow> string list \<Rightarrow> included \<Rightarrow> error option \<times> included" where
  "resolve_includes self [] inc = (None, inc)"
| "resolve_includes self (p # ps) inc =
     (case resolve_include self (PathStr p) inc of
        (Some e, inc') \<Rightarrow> (Some e, inc')
      | (None, inc') \<Rightarrow> resolve_includes self ps inc')"

text \<open>
  The fragment \<^verbatim>\<open>serializable\<close> returns. A relationship's entry is a dictionary with the
  one key \<^verbatim>\<open>"data"\<close>, whose value is \<^verbatim>\<open>None\<close>, one identifier or a list of them;
  \<open>f_links\<close> is \<^verbatim>\<open>res["links"]["self"]\<close> and \<open>f_relationships\<close> is \<open>None\<close> when the key is
  not set.
\<close>

datatype data_out = DataNone | DataIdent ident | DataList "ident list"

record fragment =
  f_attributes :: "(string \<times> pyval) list"
  f_links :: "string option"
  f_type :: string
  f_id :: string
  f_relationships :: "(string \<times> data_out) list option"

fun serializable_attributes :: "pyval \<Rightarrow> string list \<Rightarrow> (string \<times> pyval) list
    \<Rightarrow> error + (string \<times> pyval) list" where
  "serializable_attributes obj [] attributes' = Inr attributes'"
| "serializable_attributes obj (a # as) attributes' =
     (case getattr obj a of
        Inl e \<Rightarrow> Inl e
      | Inr v \<Rightarrow> serializable_attributes obj as (dict_set attributes' a v))"

text \<open>
  One round of the loop over \<^verbatim>\<open>self.relationships.items()\<close>. The names are the keys of
  a dictionary, so each is met once and \<^verbatim>\<open>setdefault\<close> makes a new entry.
\<close>

definition serializable_relationship :: "pyval \<Rightarrow> (string \<times> data_out) list \<Rightarrow> string \<times> rel
    \<Rightarrow> error + (string \<times> data_out) list" where
  "serializable_relationship obj relationships' nr =
     (if collection (snd nr)
      then (case getattr obj (fst nr) of
              Inl e \<Rightarrow> Inl e
            | Inr m \<Rightarrow>
                (case py_all m of
                   Inl e \<Rightarrow> Inl e
                 | Inr qs \<Rightarrow>
                     Inr (dict_set relationships' (fst nr)
                            (DataList (map (\<lambda>v. get_identifier
                               (Resource (resource_class (snd nr)) (PObj v))) qs)))))
      else (case getattr obj (fst nr) of
              Inl e \<Rightarrow> Inl e
            | Inr v \<Rightarrow>
                Inr (dict_set relationships' (fst nr)
                       (if v \<noteq> PNone
                        then DataIdent (get_identifier (Resource (resource_class (snd nr)) v))
                        else DataNone))))"

fun serializable_relationships :: "pyval \<Rightarrow> (string \<times> rel) list \<Rightarrow> (string \<times> data_out) list
    \<Rightarrow> error + (string \<times> data_out) list" where
  "serializable_relationships obj [] relationships' = Inr relationships'"
| "serializable_relationships obj (nr # nrs) relationships' =
     (case serializable_relationship obj relationships' nr of
        Inl e \<Rightarrow> Inl e
      | Inr relationships'' \<Rightarrow> serializable_relationships obj nrs relationships'')"

text \<open>
  \<^verbatim>\<open>serializable\<close>: the exception or the fragment, with \<^verbatim>\<open>included\<close> as the call
  leaves it.
\<close>

definition serializable :: "(string \<Rightarrow> (string \<times> string) list \<Rightarrow> string) \<Rightarrow> resource
    \<Rightarrow> included option \<Rightarrow> (string \<Rightarrow> string) option
    \<Rightarrow> (error + fragment) \<times> included option" where
  "serializable reverse self inc request =
     (case serializable_attributes (robj self) (attributes (rclass self)) [] of
        Inl e \<Rightarrow> (Inl e, inc)
      | Inr attributes' \<Rightarrow>
          (case serializable_relationships (robj self) (relationships (rclass self)) [] of
             Inl e \<Rightarrow> (Inl e, inc)
           | Inr relationships' \<Rightarrow>
               (case (case inc of
                        None \<Rightarrow> (None, None)
                      | Some i \<Rightarrow>
                          (case resolve_includes self (paths i) i of (e, i') \<Rightarrow> (e, Some i'))) of
                  (Some e, inc') \<Rightarrow> (Inl e, inc')
                | (None, inc') \<Rightarrow>
                    (case (case bound_viewset (rclass self) of
                             None \<Rightarrow> Inr None
                           | Some viewset \<Rightarrow>
                               (case get_self_link reverse self request of
                                  Inl e \<Rightarrow> Inl e
                                | Inr url \<Rightarrow> Inr (Some url))) of
                       Inl e \<Rightarrow> (Inl e, inc')
                     | Inr links \<Rightarrow>
                         (Inr \<lparr>f_attributes = attributes',
                               f_links = links,
                               f_type = id_type (get_identifier self),
                               f_id = id_id (get_identifier self),
                               f_relationships =
                                 (if relationships' \<noteq> [] then Some relationships' else None)\<rparr>,
                          inc')))))"

section \<open>The binding chain\<close>

text \<open>
  Some class on the chain from a resource class up through the parents of its viewsets
  has no bound viewset.
\<close>

function chain_unbound :: "resource_class \<Rightarrow> bool" where
  "chain_unbound r =
     (case bound_viewset r of
        None \<Rightarrow> True
      | Some viewset \<Rightarrow> (case parent viewset of None \<Rightarrow> False | Some p \<Rightarrow> chain_unbound p))"
  by pat_completeness auto
termination
proof (relation "measure size", goal_cases)
  case 1
  show ?case by simp
next
  case (2 r viewset p)
  then show ?case by (cases r; cases viewset) simp
qed

declare chain_unbound.simps [simp del]


section \<open>What populate writes\<close>

text \<open>
  The assignment a round of the first loop makes, when it makes one: the storage
  attribute \<^verbatim>\<open>f.attname\<close> of the field the key names, and the value. \<open>attr_writes\<close> lists
  them in the order of the payload.
\<close>

definition attr_write :: "model_class \<Rightarrow> string \<times> pyval \<Rightarrow> (string \<times> pyval) option" where
  "attr_write m kv =
     (case get_field m (fst kv) of
        Inl e \<Rightarrow> None
      | Inr f \<Rightarrow> (case field_attname f of Inl e \<Rightarrow> None | Inr a \<Rightarrow> Some (a, snd kv)))"

definition attr_writes :: "model_class \<Rightarrow> (string \<times> pyval) list \<Rightarrow> (string \<times> pyval) list" where
  "attr_writes m kvs = List.map_filter (attr_write m) kvs"

text \<open>
  The attribute a round of the second loop may assign besides \<^verbatim>\<open>save_relationships\<close>:
  for a to-one relationship, \<^verbatim>\<open>f.attname\<close> of its field. \<open>rel_writes\<close> lists every name
  the second loop may assign.
\<close>

definition rel_write :: "resource_class \<Rightarrow> string \<times> rel_data \<Rightarrow> string option" where
  "rel_write cls kv =
     (case map_of (relationships cls) (fst kv) of
        None \<Rightarrow> None
      | Some rel \<Rightarrow>
          (if collection rel then None
           else (case get_field (model cls) (case attr rel of Some a' \<Rightarrow> a' | None \<Rightarrow> fst kv) of
                   Inl e \<Rightarrow> None
                 | Inr f \<Rightarrow> (case field_attname f of Inl e \<Rightarrow> None | Inr an \<Rightarrow> Some an))))"

definition rel_writes :: "resource_class \<Rightarrow> (string \<times> rel_data) list \<Rightarrow> string list" where
  "rel_writes cls rs = ''save_relationships'' # List.map_filter (rel_write cls) rs"

section \<open>An example schema\<close>

text \<open>
  Articles with an author (to-one), tags (many-to-many) and comments (a reverse
  relation), and chapters nested under books nested under publishers. The \<^verbatim>\<open>id\<close>
  property of every example class returns \<^verbatim>\<open>self.obj.id\<close>.
\<close>

definition obj_id :: "pyval \<Rightarrow> pyval" where
  "obj_id obj = (case getattr obj ''id'' of Inl e \<Rightarrow> PNone | Inr v \<Rightarrow> v)"

definition ex_author_table :: manager where
  "ex_author_table = [(PStr ''7'', [(''id'', PStr ''7''), (''name'', PStr ''Ada'')])]"

definition ex_tag_table :: manager where
  "ex_tag_table = [(PStr ''1'', [(''id'', PStr ''1'')])]"

definition ex_comment_table :: manager where
  "ex_comment_table = [(PStr ''5'', [(''id'', PStr ''5''), (''replies'', PManager [])])]"

definition ex_author_model :: model_class where
  "ex_author_model =
     \<lparr>new_instance = [(''id'', PNone), (''name'', PStr '''')],
      meta_fields = [Field ''id'' ''id'' None, Field ''name'' ''name'' None],
      related_objects = []\<rparr>"

definition ex_article_model :: model_class where
  "ex_article_model =
     \<lparr>new_instance =
        [(''id'', PNone), (''title'', PStr ''''), (''author_id'', PNone), (''author'', PNone),
         (''tags'', PManager []), (''comments'', PManager [])],
      meta_fields =
        [Field ''id'' ''id'' None,
         Field ''title'' ''title'' None,
         Field ''author'' ''author_id''
           (Some \<lparr>rel_to = ex_author_table, rel_model = ex_author_table\<rparr>),
         Field ''tags'' ''tags'' (Some \<lparr>rel_to = ex_tag_table, rel_model = ex_tag_table\<rparr>),
         ForeignObjectRel ''comments'' ''comments'' ex_comment_table],
      related_objects = [ForeignObjectRel ''comments'' ''comments'' ex_comment_table]\<rparr>"

definition ex_plain_model :: model_class where
  "ex_plain_model =
     \<lparr>new_instance = [(''id'', PNone)], meta_fields = [Field ''id'' ''id'' None],
      related_objects = []\<rparr>"

definition ex_author_class :: resource_class where
  "ex_author_class = ResourceClass ''author'' [''name''] [] None ex_author_model obj_id"

definition ex_tag_class :: resource_class where
  "ex_tag_class = ResourceClass ''tag'' [] [] None ex_plain_model obj_id"

definition ex_reply_class :: resource_class where
  "ex_reply_class = ResourceClass ''reply'' [] [] None ex_plain_model obj_id"

definition ex_comment_class :: resource_class where
  "ex_comment_class =
     ResourceClass ''comment'' [] [(''replies'', Rel ex_reply_class True None)] None
       ex_plain_model obj_id"

definition ex_article_class :: resource_class where
  "ex_article_class =
     ResourceClass ''article'' [''title'']
       [(''author'', Rel ex_author_class False None),
        (''tags'', Rel ex_tag_class True None),
        (''comments'', Rel ex_comment_class True None)]
       None ex_article_model obj_id"

definition ex_article :: inst where
  "ex_article =
     [(''id'', PInt 3), (''title'', PStr ''Old''), (''author_id'', PNone), (''author'', PNone),
      (''tags'', PManager [[(''id'', PStr ''1'')]]),
      (''comments'', PManager [[(''id'', PStr ''5''), (''replies'', PManager [])]])]"

definition ex_included :: included where
  "ex_included = \<lparr>paths = [], members = []\<rparr>"

definition ex_publisher_class :: resource_class where
  "ex_publisher_class =
     ResourceClass ''publisher'' [] [] (Some (Viewset None ''publisher'' ''publisher''))
       ex_plain_model obj_id"

definition ex_book_class :: resource_class where
  "ex_book_class =
     ResourceClass ''book'' [] [] (Some (Viewset (Some ex_publisher_class) ''book'' ''book''))
       ex_plain_model obj_id"

definition ex_chapter_class :: resource_class where
  "ex_chapter_class =
     ResourceClass ''chapter'' [] [] (Some (Viewset (Some ex_book_class) ''chapter'' ''chapter''))
       ex_plain_model obj_id"

definition ex_note_class :: resource_class where
  "ex_note_class =
     ResourceClass ''note'' [] [] (Some (Viewset (Some ex_article_class) ''note'' ''note''))
       ex_plain_model obj_id"

definition ex_publisher :: inst where
  "ex_publisher = [(''id'', PInt 10)]"

definition ex_book :: inst where
  "ex_book = [(''id'', PInt 20), (''publisher'', PObj ex_publisher)]"

definition ex_chapter :: inst where
  "ex_chapter = [(''id'', PInt 30), (''book'', PObj ex_book)]"

definition ex_reverse :: "string \<Rightarrow> (string \<times> string) list \<Rightarrow> string" where
  "ex_reverse name kwargs = name @ '':'' @ concat (map (\<lambda>kv. ''/'' @ snd kv) kwargs)"

definition ex_article_with_author :: inst where
  "ex_article_with_author =
     [(''id'', PInt 4), (''title'', PStr ''Notes''), (''author_id'', PStr ''7''),
      (''author'', PObj [(''id'', PStr ''7''), (''name'', PStr ''Ada'')]),
      (''tags'', PManager []), (''comments'', PManager [])]"


definition ex_populated :: inst where
  "ex_populated =
     [(''id'', PNone), (''title'', PStr ''''), (''author_id'', PNone), (''author'', PNone),
      (''tags'', PManager []), (''comments'', PManager []),
      (''save_relationships'',
       PSave ''comments'' [[(''id'', PStr ''5''), (''replies'', PManager [])]])]"

text \<open>
  Tags of a model with the default integer primary key. A lookup by primary key converts
  its value to the type of the key, so the tag 1 is found under the string the payload
  carries; the \<^verbatim>\<open>id\<close> of the fetched object is the integer.
\<close>

definition ex_int_tag_table :: manager where
  "ex_int_tag_table = [(PStr ''1'', [(''id'', PInt 1)])]"

definition ex_post_model :: model_class where
  "ex_post_model =
     \<lparr>new_instance = [(''id'', PNone), (''tags'', PManager [])],
      meta_fields =
        [Field ''id'' ''id'' None,
         Field ''tags'' ''tags''
           (Some \<lparr>rel_to = ex_int_tag_table, rel_model = ex_int_tag_table\<rparr>)],
      related_objects = []\<rparr>"

definition ex_post_class :: resource_class where
  "ex_post_class =
     ResourceClass ''post'' [] [(''tags'', Rel ex_tag_class True None)] None
       ex_post_model obj_id"

text \<open>
  Stories, whose relationship \<^verbatim>\<open>author\<close> is declared with \<^verbatim>\<open>attr="writer"\<close>: the model
  has the foreign key \<^verbatim>\<open>writer\<close> and no attribute \<^verbatim>\<open>author\<close>. The story 6 was written
  by the author 7.
\<close>

definition ex_story_model :: model_class where
  "ex_story_model =
     \<lparr>new_instance = [(''id'', PNone), (''writer_id'', PNone), (''writer'', PNone)],
      meta_fields =
        [Field ''id'' ''id'' None,
         Field ''writer'' ''writer_id''
           (Some \<lparr>rel_to = ex_author_table, rel_model = ex_author_table\<rparr>)],
      related_objects = []\<rparr>"

definition ex_story_class :: resource_class where
  "ex_story_class =
     ResourceClass ''story'' [] [(''author'', Rel ex_author_class False (Some ''writer''))] None
       ex_story_model obj_id"

definition ex_story :: inst where
  "ex_story =
     [(''id'', PInt 6), (''writer_id'', PStr ''7''),
      (''writer'', PObj [(''id'', PStr ''7''), (''name'', PStr ''Ada'')])]"

text \<open>
  A resource class of the articles that declares the foreign key \<^verbatim>\<open>author\<close> as an
  attribute.
\<close>

definition ex_byline_class :: resource_class where
  "ex_byline_class =
     ResourceClass ''article'' [''title'', ''author''] [] None ex_article_model obj_id"

section \<open>Self links\<close>

lemma resolve_unbound:
  "chain_unbound r \<Longrightarrow>
   resolve s r st = Inl (RuntimeError ''cannot generate link without being bound to a viewset'')"
proof (induction s r st rule: resolve.induct)
  case (1 self_obj r st)
  show ?case
  proof (cases "bound_viewset r")
    case None
    then show ?thesis by (simp add: resolve.simps)
  next
    case (Some viewset)
    with "1.prems" obtain p where p: "parent viewset = Some p" "chain_unbound p"
      by (auto simp: chain_unbound.simps [of r] split: option.splits)
    from "1.IH" [OF Some p(1) p(2)] Some p(1) show ?thesis
      by (simp add: resolve.simps [of self_obj r])
  qed
qed

lemma getattr_error: "getattr obj n = Inl e \<Longrightarrow> e = AttributeError"
  by (cases obj) (auto split: option.splits)

lemma resolve_bound:
  "\<not> chain_unbound r \<Longrightarrow> resolve s r st \<noteq> Inl (RuntimeError msg)"
proof (induction s r st rule: resolve.induct)
  case (1 self_obj r st)
  from "1.prems" obtain viewset where vs: "bound_viewset r = Some viewset"
    by (auto simp: chain_unbound.simps [of r] split: option.splits)
  show ?case
  proof (cases "parent viewset")
    case None
    with vs show ?thesis
      by (auto simp: resolve.simps [of self_obj r] split: sum.splits prod.splits if_splits
               dest: getattr_error)
  next
    case (Some p)
    with "1.prems" vs have "\<not> chain_unbound p"
      by (simp add: chain_unbound.simps [of r])
    from "1.IH" [OF vs Some this] vs Some show ?thesis
      by (auto simp: resolve.simps [of self_obj r] split: sum.splits prod.splits if_splits
               dest: getattr_error)
  qed
qed

text \<open>
  C8. When the class of a resource, or a class on the parent chain of its viewset, has no
  bound viewset, \<^verbatim>\<open>get_self_link\<close> raises the RuntimeError "cannot generate link without
  being bound to a viewset" (the spec's BindingError); when every class on the chain is
  bound, \<^verbatim>\<open>get_self_link\<close> never raises a RuntimeError.
\<close>

theorem get_self_link_binding_error:
  "(chain_unbound (rclass self) \<longrightarrow>
      get_self_link reverse self request =
        Inl (RuntimeError ''cannot generate link without being bound to a viewset''))
   \<and> (\<not> chain_unbound (rclass self) \<longrightarrow>
      (\<forall>msg. get_self_link reverse self request \<noteq> Inl (RuntimeError msg)))"
proof (intro conjI impI allI)
  assume "chain_unbound (rclass self)"
  then show "get_self_link reverse self request =
      Inl (RuntimeError ''cannot generate link without being bound to a viewset'')"
    by (simp add: get_self_link_def resolve_unbound)
next
  fix msg
  assume nb: "\<not> chain_unbound (rclass self)"
  then obtain viewset where "bound_viewset (rclass self) = Some viewset"
    by (auto simp: chain_unbound.simps [of "rclass self"] split: option.splits)
  with resolve_bound [OF nb, of "robj self" "(PNone, [])"]
  show "get_self_link reverse self request \<noteq> Inl (RuntimeError msg)"
    by (auto simp: get_self_link_def Let_def split: sum.splits prod.splits option.splits)
qed

lemma chain_unbound_ex_note: "chain_unbound ex_note_class"
  by code_simp

lemma chain_bound_ex_publisher: "\<not> chain_unbound ex_publisher_class"
  by code_simp

theorem get_self_link_binding_error_witness:
  "chain_unbound ex_note_class
   \<and> get_self_link ex_reverse (Resource ex_note_class (PObj [(''id'', PInt 1)])) None =
       Inl (RuntimeError ''cannot generate link without being bound to a viewset'')
   \<and> \<not> chain_unbound ex_publisher_class
   \<and> (\<forall>msg. get_self_link ex_reverse (Resource ex_publisher_class (PObj ex_publisher)) None
         \<noteq> Inl (RuntimeError msg))
   \<and> get_self_link ex_reverse (Resource ex_publisher_class (PObj ex_publisher)) None =
       Inr ''publisher-detail:/10''"
proof -
  have "get_self_link ex_reverse (Resource ex_publisher_class (PObj ex_publisher)) None =
       Inr ''publisher-detail:/10''"
    by code_simp
  with get_self_link_binding_error
         [of "Resource ex_note_class (PObj [(''id'', PInt 1)])" ex_reverse None]
       get_self_link_binding_error
         [of "Resource ex_publisher_class (PObj ex_publisher)" ex_reverse None]
       chain_unbound_ex_note chain_bound_ex_publisher
  show ?thesis by simp
qed

text \<open>
  C4. A chapter nested under a book nested under a publisher, the chapter holding its book
  and the book its publisher. \<^verbatim>\<open>resolve\<close> gives \<^verbatim>\<open>self.obj\<close>, the chapter, to the root
  level, so the publisher's lookup field gets the chapter's id; the book level then reads
  \<^verbatim>\<open>chapter.book\<close>, and the chapter level reads \<^verbatim>\<open>book.chapter\<close>, which does not exist:
  \<^verbatim>\<open>get_self_link\<close> raises AttributeError instead of building the three lookup values.
\<close>

theorem get_self_link_three_levels:
  "get_self_link ex_reverse (Resource ex_chapter_class (PObj ex_chapter)) None =
     Inl AttributeError
   \<and> resolve (PObj ex_chapter) ex_book_class (PNone, []) =
     Inr (PObj ex_book, [(''publisher'', ''30''), (''book'', ''20'')])"
  by code_simp

section \<open>Includes\<close>

lemma fst_split_path: "fst (split_path s) = takeWhile (\<lambda>c. c \<noteq> CHR ''.'') s"
proof (cases "CHR ''.'' \<in> set s")
  case True
  then show ?thesis by (simp add: split_path_def)
next
  case False
  then have "takeWhile (\<lambda>c. c \<noteq> CHR ''.'') s = s"
    by (auto simp: takeWhile_eq_all_conv)
  with False show ?thesis by (simp add: split_path_def del: takeWhile_eq_all_conv)
qed

text \<open>
  C7. When the first segment of an include path (the path up to its first dot) is not a
  key of the resource class's \<^verbatim>\<open>relationships\<close>, \<^verbatim>\<open>resolve_include\<close> raises
  SerializationError with the message naming that segment, and \<^verbatim>\<open>included\<close> is left as
  it was: nothing has been added.
\<close>

theorem resolve_include_undeclared:
  assumes "takeWhile (\<lambda>c. c \<noteq> CHR ''.'') s \<notin> fst ` set (relationships (rclass resource))"
  shows "resolve_include resource (PathStr s) inc =
    (Some (SerializationError
       ([CHR 0x27] @ takeWhile (\<lambda>c. c \<noteq> CHR ''.'') s @ [CHR 0x27]
          @ '' is not a valid relationship to include'')), inc)"
proof -
  from assms have "map_of (relationships (rclass resource)) (fst (split_path s)) = None"
    by (simp add: fst_split_path map_of_eq_None_iff)
  then show ?thesis
    by (simp add: resolve_include.simps fst_split_path Let_def)
qed

theorem resolve_include_undeclared_witness:
  "takeWhile (\<lambda>c. c \<noteq> CHR ''.'') ''ghost'' \<notin> fst ` set (relationships ex_article_class)
   \<and> resolve_include (Resource ex_article_class (PObj ex_article)) (PathStr ''ghost'') ex_included =
     (Some (SerializationError
        ([CHR 0x27] @ ''ghost'' @ [CHR 0x27] @ '' is not a valid relationship to include'')),
      ex_included)"
proof -
  have h: "takeWhile (\<lambda>c. c \<noteq> CHR ''.'') ''ghost''
      \<notin> fst ` set (relationships (rclass (Resource ex_article_class (PObj ex_article))))"
    by (simp add: ex_article_class_def)
  from h resolve_include_undeclared [OF h, of ex_included] show ?thesis by simp
qed

text \<open>
  A path of one segment whose relationship holds at least one member never adds
  anything: the first round of the loop raises AttributeError.
\<close>

lemma resolve_include_single_segment:
  assumes "CHR ''.'' \<notin> set s"
    and "map_of (relationships (rclass resource)) s = Some rel"
    and "getattr (robj resource) s = Inr (PManager (obj # objs))"
  shows "resolve_include resource (PathStr s) inc = (Some AttributeError, inc)"
  using assms by (simp add: resolve_include.simps split_path_def)

text \<open>
  C1. An article with one tag and one comment; the comment class declares \<^verbatim>\<open>replies\<close>,
  the article class does not. For the path \<^verbatim>\<open>tags\<close> the loop calls
  \<^verbatim>\<open>resolve_include(resource, [], included)\<close> for the tag, and \<^verbatim>\<open>[].split\<close> raises
  AttributeError before the tag is added. For the path \<^verbatim>\<open>comments.replies\<close> the recursive
  call looks \<^verbatim>\<open>replies\<close> up on the article class, not on the comment class, and raises
  SerializationError. For the to-one \<^verbatim>\<open>author\<close> the call of \<^verbatim>\<open>all()\<close> raises
  AttributeError. Nothing is added to \<^verbatim>\<open>included\<close> in any of the three.
\<close>

theorem resolve_include_recurses_on_resource:
  "resolve_include (Resource ex_article_class (PObj ex_article)) (PathStr ''tags'') ex_included =
     (Some AttributeError, ex_included)
   \<and> resolve_include (Resource ex_article_class (PObj ex_article)) (PathStr ''comments.replies'')
       ex_included =
     (Some (SerializationError
        ([CHR 0x27] @ ''replies'' @ [CHR 0x27] @ '' is not a valid relationship to include'')),
      ex_included)
   \<and> map_of (relationships ex_comment_class) ''replies'' = Some (Rel ex_reply_class True None)
   \<and> resolve_include (Resource ex_article_class (PObj ex_article)) (PathStr ''author'') ex_included =
     (Some AttributeError, ex_included)"
  by (simp add: resolve_include.simps split_path_def ex_article_class_def ex_article_def
        ex_comment_class_def)

section \<open>Serialization\<close>

lemma map_of_dict_set: "map_of (dict_set d k v) k' = (if k' = k then Some v else map_of d k')"
  by (induction d) auto

lemma serializable_relationship_many:
  assumes "collection (snd nr)"
  shows "serializable_relationship obj acc nr =
    (case getattr obj (fst nr) of
       Inl e \<Rightarrow> Inl e
     | Inr m \<Rightarrow>
         (case py_all m of
            Inl e \<Rightarrow> Inl e
          | Inr qs \<Rightarrow>
              Inr (dict_set acc (fst nr)
                     (DataList (map (\<lambda>v. get_identifier
                        (Resource (resource_class (snd nr)) (PObj v))) qs)))))"
  using assms by (simp add: serializable_relationship_def)

lemma serializable_relationship_single:
  assumes "\<not> collection (snd nr)"
  shows "serializable_relationship obj acc nr =
    (case getattr obj (fst nr) of
       Inl e \<Rightarrow> Inl e
     | Inr v \<Rightarrow>
         Inr (dict_set acc (fst nr)
                (if v \<noteq> PNone
                 then DataIdent (get_identifier (Resource (resource_class (snd nr)) v))
                 else DataNone)))"
  using assms by (simp add: serializable_relationship_def)

lemma serializable_relationship_result:
  assumes "serializable_relationship obj acc nr = Inr acc'"
  shows "\<exists>d. acc' = dict_set acc (fst nr) d"
proof (cases "collection (snd nr)")
  case True
  with assms show ?thesis
    by (auto simp: serializable_relationship_many split: sum.splits)
next
  case False
  with assms show ?thesis
    by (auto simp: serializable_relationship_single split: sum.splits)
qed

lemma serializable_relationship_other:
  assumes "serializable_relationship obj acc nr = Inr acc'" and "fst nr \<noteq> name"
  shows "map_of acc' name = map_of acc name"
proof -
  from serializable_relationship_result [OF assms(1)] obtain d where
    "acc' = dict_set acc (fst nr) d" ..
  with assms(2) show ?thesis by (simp add: map_of_dict_set)
qed

lemma serializable_relationships_other:
  assumes "serializable_relationships obj nrs acc = Inr rels" and "name \<notin> fst ` set nrs"
  shows "map_of rels name = map_of acc name"
  using assms
proof (induction nrs arbitrary: acc)
  case Nil
  then show ?case by simp
next
  case (Cons nr nrs)
  from Cons.prems(1) obtain acc' where
    step: "serializable_relationship obj acc nr = Inr acc'" and
    rest: "serializable_relationships obj nrs acc' = Inr rels"
    by (auto split: sum.splits)
  from Cons.prems(2) have "fst nr \<noteq> name" and "name \<notin> fst ` set nrs" by auto
  with Cons.IH [OF rest] serializable_relationship_other [OF step] show ?case by simp
qed

lemma serializable_relationship_one:
  assumes "serializable_relationship obj acc (name, rel) = Inr acc'" and "\<not> collection rel"
  shows "\<exists>v. getattr obj name = Inr v \<and>
    map_of acc' name =
      Some (if v = PNone then DataNone
            else DataIdent \<lparr>id_type = api_type (resource_class rel),
                            id_id = py_str (rid (resource_class rel) v)\<rparr>)"
proof (cases "getattr obj name")
  case (Inl e)
  with assms show ?thesis by (simp add: serializable_relationship_single)
next
  case (Inr v)
  with assms have "acc' = dict_set acc name
      (if v \<noteq> PNone then DataIdent (get_identifier (Resource (resource_class rel) v))
       else DataNone)"
    by (auto simp: serializable_relationship_single)
  with Inr show ?thesis by (simp add: map_of_dict_set get_identifier_def)
qed

lemma serializable_relationships_one:
  assumes "serializable_relationships obj nrs acc = Inr rels"
    and "distinct (map fst nrs)" and "(name, rel) \<in> set nrs" and "\<not> collection rel"
  shows "\<exists>v. getattr obj name = Inr v \<and>
    map_of rels name =
      Some (if v = PNone then DataNone
            else DataIdent \<lparr>id_type = api_type (resource_class rel),
                            id_id = py_str (rid (resource_class rel) v)\<rparr>)"
  using assms
proof (induction nrs arbitrary: acc)
  case Nil
  then show ?case by simp
next
  case (Cons nr nrs)
  from Cons.prems(1) obtain acc' where
    step: "serializable_relationship obj acc nr = Inr acc'" and
    rest: "serializable_relationships obj nrs acc' = Inr rels"
    by (auto split: sum.splits)
  show ?case
  proof (cases "nr = (name, rel)")
    case True
    with Cons.prems(2) have "name \<notin> fst ` set nrs" by auto
    from serializable_relationships_other [OF rest this]
      serializable_relationship_one [OF step [unfolded True] Cons.prems(4)]
    show ?thesis by simp
  next
    case False
    with Cons.prems have "distinct (map fst nrs)" and "(name, rel) \<in> set nrs" by auto
    from Cons.IH [OF rest this Cons.prems(4)] show ?thesis .
  qed
qed

lemma serializable_parts:
  assumes "serializable reverse self inc request = (Inr out, inc')"
  shows "serializable_attributes (robj self) (attributes (rclass self)) [] = Inr (f_attributes out)"
    and "\<exists>rels. serializable_relationships (robj self) (relationships (rclass self)) [] = Inr rels
          \<and> f_relationships out = (if rels \<noteq> [] then Some rels else None)"
proof -
  obtain attrs where a:
    "serializable_attributes (robj self) (attributes (rclass self)) [] = Inr attrs"
    using assms
    by (cases "serializable_attributes (robj self) (attributes (rclass self)) []")
       (simp_all add: serializable_def)
  obtain rels where r:
    "serializable_relationships (robj self) (relationships (rclass self)) [] = Inr rels"
    using assms a
    by (cases "serializable_relationships (robj self) (relationships (rclass self)) []")
       (simp_all add: serializable_def)
  from assms a r have "f_attributes out = attrs
      \<and> f_relationships out = (if rels \<noteq> [] then Some rels else None)"
    by (auto simp: serializable_def split: prod.splits option.splits sum.splits)
  with a r show
    "serializable_attributes (robj self) (attributes (rclass self)) [] = Inr (f_attributes out)"
    and "\<exists>rels. serializable_relationships (robj self) (relationships (rclass self)) [] = Inr rels
          \<and> f_relationships out = (if rels \<noteq> [] then Some rels else None)"
    by auto
qed

text \<open>
  When \<^verbatim>\<open>serializable\<close> returns a fragment, every declared to-one relationship has an
  entry in its \<^verbatim>\<open>relationships\<close>, and its \<^verbatim>\<open>data\<close> is \<^verbatim>\<open>None\<close> when
  \<^verbatim>\<open>getattr(self.obj, name)\<close> is \<^verbatim>\<open>None\<close>, and otherwise the identifier of that value:
  the target class's \<^verbatim>\<open>api_type\<close> and \<^verbatim>\<open>str\<close> of its id. What is read is the attribute
  under the relationship's name, whatever its \<^verbatim>\<open>attr\<close>. The relationships are the items
  of a dictionary: their names are distinct.
\<close>

lemma serializable_to_one_by_name:
  assumes "serializable reverse self inc request = (Inr out, inc')"
    and "distinct (map fst (relationships (rclass self)))"
    and "(name, rel) \<in> set (relationships (rclass self))"
    and "\<not> collection rel"
  shows "\<exists>rels v. f_relationships out = Some rels \<and> getattr (robj self) name = Inr v \<and>
    map_of rels name =
      Some (if v = PNone then DataNone
            else DataIdent \<lparr>id_type = api_type (resource_class rel),
                            id_id = py_str (rid (resource_class rel) v)\<rparr>)"
proof -
  from serializable_parts(2) [OF assms(1)] obtain rels where
    rels: "serializable_relationships (robj self) (relationships (rclass self)) [] = Inr rels"
    and out: "f_relationships out = (if rels \<noteq> [] then Some rels else None)"
    by blast
  from serializable_relationships_one [OF rels assms(2,3,4)] obtain v where
    v: "getattr (robj self) name = Inr v"
    "map_of rels name =
      Some (if v = PNone then DataNone
            else DataIdent \<lparr>id_type = api_type (resource_class rel),
                            id_id = py_str (rid (resource_class rel) v)\<rparr>)"
    by blast
  from v(2) have "rels \<noteq> []" by auto
  with out v show ?thesis by auto
qed


lemma py_str_ex_ids: "py_str (PInt 3) = ''3''" "py_str (PInt 4) = ''4''"
  by code_simp+

text \<open>
  C6. The relationship \<^verbatim>\<open>author\<close> of a story is declared with \<^verbatim>\<open>attr="writer"\<close>, and the
  story 6 has the author 7 as its writer. \<^verbatim>\<open>populate\<close> takes the field from
  \<^verbatim>\<open>rel.attr\<close> (line 45) and writes the writer's storage attribute; \<^verbatim>\<open>serializable\<close>
  reads \<^verbatim>\<open>getattr(self.obj, name)\<close> with the relationship's name (line 156), which the
  story does not have, and raises AttributeError: no fragment is returned, while the
  related object is there.
\<close>

theorem serializable_to_one_ignores_attr:
  "map_of (relationships ex_story_class) ''author'' =
     Some (Rel ex_author_class False (Some ''writer''))
   \<and> getattr (PObj ex_story) ''writer'' =
       Inr (PObj [(''id'', PStr ''7''), (''name'', PStr ''Ada'')])
   \<and> getattr (PObj ex_story) ''author'' = Inl AttributeError
   \<and> serializable ex_reverse (Resource ex_story_class (PObj ex_story)) None None =
       (Inl AttributeError, None)
   \<and> populate ex_story_class
        \<lparr>p_attributes = Some [],
         p_relationships = Some [(''author'', DataOne (PStr ''7''))]\<rparr>
        (Some ex_story) =
      (Inr (Resource ex_story_class
         (PObj (dict_set ex_story ''writer_id''
            (PObj [(''id'', PStr ''7''), (''name'', PStr ''Ada'')])))),
       dict_set ex_story ''writer_id''
         (PObj [(''id'', PStr ''7''), (''name'', PStr ''Ada'')]))"
  by (simp add: serializable_def serializable_relationship_def get_field_def manager_get_def
        ex_author_table_def populate_def populate_relationship_def populate_one_def setattr_def
        ex_story_class_def ex_story_model_def ex_story_def)

section \<open>Populate: what the two loops write\<close>

lemma populate_attributes_error:
  "populate_attributes m kvs obj = (Some e, obj') \<Longrightarrow> e = FieldDoesNotExist \<or> e = AttributeError"
proof (induction kvs arbitrary: obj)
  case Nil
  then show ?case by simp
next
  case (Cons kv kvs)
  obtain k v where kv: "kv = (k, v)" by (cases kv)
  show ?case
  proof (cases "get_field m k")
    case (Inl e')
    with Cons.prems kv show ?thesis
      by (auto simp: get_field_def split: option.splits)
  next
    case (Inr f)
    show ?thesis
    proof (cases f)
      case (Field n a r)
      with Cons.prems kv Inr Cons.IH show ?thesis by simp
    next
      case (ForeignObjectRel n acc m')
      with Cons.prems kv Inr show ?thesis by simp
    qed
  qed
qed

lemma populate_attributes_value:
  "populate_attributes m kvs obj = (None, obj1) \<Longrightarrow>
   map_of obj1 a =
     (case map_of (rev (attr_writes m kvs)) a of Some v \<Rightarrow> Some v | None \<Rightarrow> map_of obj a)"
proof (induction kvs arbitrary: obj)
  case Nil
  then show ?case by (simp add: attr_writes_def map_filter_simps)
next
  case (Cons kv kvs)
  obtain k v where kv: "kv = (k, v)" by (cases kv)
  from Cons.prems kv obtain f a0 where
    f: "get_field m k = Inr f" "field_attname f = Inr a0" and
    rest: "populate_attributes m kvs (setattr obj a0 v) = (None, obj1)"
    by (auto split: sum.splits)
  from f kv have w: "attr_writes m (kv # kvs) = (a0, v) # attr_writes m kvs"
    by (simp add: attr_writes_def attr_write_def map_filter_simps)
  from Cons.IH [OF rest] show ?case
    by (simp add: w map_add_def setattr_def map_of_dict_set split: option.splits)
qed

lemma rebind_other:
  "n \<noteq> ''save_relationships'' \<Longrightarrow> map_of (ps_obj (rebind st a q)) n = map_of (ps_obj st) n"
  by (simp add: rebind_def setattr_def map_of_dict_set split: option.splits pyval.splits)

lemma populate_one_other:
  assumes "populate_one cls st k a v = (e, st')"
    and "\<forall>f. get_field (model cls) a = Inr f \<longrightarrow> field_attname f \<noteq> Inr n"
  shows "map_of (ps_obj st') n = map_of (ps_obj st) n"
proof (cases "get_field (model cls) a")
  case (Inl e')
  with assms(1) show ?thesis by (simp add: populate_one_def)
next
  case (Inr f)
  with assms(2) have n: "field_attname f \<noteq> Inr n" by simp
  from assms(1) Inr have "st' = st \<or>
      (\<exists>an o'. field_attname f = Inr an \<and> st' = st\<lparr>ps_obj := setattr (ps_obj st) an (PObj o')\<rparr>)"
    by (auto simp: populate_one_def split: sum.splits option.splits)
  with n show ?thesis by (auto simp: setattr_def map_of_dict_set)
qed

lemma populate_many_other:
  assumes "populate_many cls st k a v = (e, st')" and "n \<noteq> ''save_relationships''"
  shows "map_of (ps_obj st') n = map_of (ps_obj st) n"
proof -
  from assms(1) have "st' = st \<or> (\<exists>acc qs. st' = rebind st acc qs) \<or>
      (\<exists>acc qs. st' = \<lparr>ps_obj = setattr (ps_obj (rebind st acc qs)) ''save_relationships''
                               (PSave acc qs), ps_attached = True\<rparr>)"
    by (auto simp: populate_many_def Let_def split: sum.splits prod.splits if_splits)
  with assms(2) show ?thesis
    by (auto simp: rebind_other setattr_def map_of_dict_set)
qed

lemma populate_relationship_other:
  assumes "populate_relationship cls st kv = (e, st')" and "n \<noteq> ''save_relationships''"
    and "rel_write cls kv \<noteq> Some n"
  shows "map_of (ps_obj st') n = map_of (ps_obj st) n"
proof (cases "map_of (relationships cls) (fst kv)")
  case None
  with assms(1) show ?thesis by (simp add: populate_relationship_def)
next
  case (Some rel)
  show ?thesis
  proof (cases "collection rel")
    case True
    with assms(1) Some have
      "populate_many cls st (fst kv) (case attr rel of Some a' \<Rightarrow> a' | None \<Rightarrow> fst kv) (snd kv)
         = (e, st')"
      by (simp add: populate_relationship_def)
    from populate_many_other [OF this assms(2)] show ?thesis .
  next
    case False
    with assms(1) Some have p:
      "populate_one cls st (fst kv) (case attr rel of Some a' \<Rightarrow> a' | None \<Rightarrow> fst kv) (snd kv)
         = (e, st')"
      by (simp add: populate_relationship_def)
    from assms(3) Some False have
      "\<forall>f. get_field (model cls) (case attr rel of Some a' \<Rightarrow> a' | None \<Rightarrow> fst kv) = Inr f
         \<longrightarrow> field_attname f \<noteq> Inr n"
      by (auto simp: rel_write_def split: sum.splits)
    from populate_one_other [OF p this] show ?thesis .
  qed
qed

lemma populate_relationships_other:
  assumes "populate_relationships cls rs st = (e, st')" and "n \<notin> set (rel_writes cls rs)"
  shows "map_of (ps_obj st') n = map_of (ps_obj st) n"
  using assms
proof (induction rs arbitrary: st)
  case Nil
  then show ?case by simp
next
  case (Cons kv rs)
  from Cons.prems(2) have n: "n \<noteq> ''save_relationships''" "rel_write cls kv \<noteq> Some n"
    "n \<notin> set (rel_writes cls rs)"
    by (auto simp: rel_writes_def map_filter_simps split: option.splits)
  obtain e1 st1 where step: "populate_relationship cls st kv = (e1, st1)"
    by (cases "populate_relationship cls st kv")
  note frame = populate_relationship_other [OF step n(1,2)]
  show ?case
  proof (cases e1)
    case None
    with Cons.prems(1) step have "populate_relationships cls rs st1 = (e, st')" by simp
    from Cons.IH [OF this n(3)] frame show ?thesis by simp
  next
    case (Some e')
    with Cons.prems(1) step have "st' = st1" by simp
    with frame show ?thesis by simp
  qed
qed

lemma populate_relationships_append:
  "populate_relationships cls (pre @ post) st =
     (case populate_relationships cls pre st of
        (Some e, st') \<Rightarrow> (Some e, st')
      | (None, st') \<Rightarrow> populate_relationships cls post st')"
  by (induction pre arbitrary: st) (auto split: prod.splits option.splits)

text \<open>
  C10. When \<^verbatim>\<open>populate\<close> on an existing object raises ValidationError, the first loop has
  run to its end: every attribute of the payload has been assigned. The object is left
  as that loop made it, apart from the names the second loop may assign (the storage
  attributes of the payload's to-one relationships and \<^verbatim>\<open>save_relationships\<close>): for
  every other storage attribute the payload's last value for it is still on the object.
\<close>

theorem populate_not_atomic:
  assumes "populate cls data (Some obj) = (Inl (ValidationError errs), obj')"
  shows "\<exists>kvs obj1.
    p_attributes data = Some kvs
    \<and> populate_attributes (model cls) kvs obj = (None, obj1)
    \<and> (\<forall>n. n \<notin> set (rel_writes cls (case p_relationships data of None \<Rightarrow> [] | Some rs \<Rightarrow> rs))
           \<longrightarrow> map_of obj' n = map_of obj1 n)
    \<and> (\<forall>n v. n \<notin> set (rel_writes cls (case p_relationships data of None \<Rightarrow> [] | Some rs \<Rightarrow> rs))
           \<longrightarrow> map_of (rev (attr_writes (model cls) kvs)) n = Some v
           \<longrightarrow> map_of obj' n = Some v)"
proof -
  let ?rs = "case p_relationships data of None \<Rightarrow> [] | Some rs \<Rightarrow> rs"
  from assms obtain kvs where kvs: "p_attributes data = Some kvs"
    by (cases "p_attributes data") (simp_all add: populate_def)
  obtain e1 obj1 where pa: "populate_attributes (model cls) kvs obj = (e1, obj1)"
    by (cases "populate_attributes (model cls) kvs obj")
  have e1: "e1 = None"
  proof (cases e1)
    case None
    then show ?thesis .
  next
    case (Some e)
    with assms kvs pa have "e = ValidationError errs" by (simp add: populate_def)
    with populate_attributes_error [of "model cls" kvs obj e obj1] pa Some show ?thesis by simp
  qed
  obtain e2 st where pr:
    "populate_relationships cls ?rs \<lparr>ps_obj = obj1, ps_attached = False\<rparr> = (e2, st)"
    by (cases "populate_relationships cls ?rs \<lparr>ps_obj = obj1, ps_attached = False\<rparr>")
  from assms kvs pa e1 pr have obj': "obj' = ps_obj st"
    by (cases e2) (simp_all add: populate_def)
  have frame: "map_of obj' n = map_of obj1 n" if "n \<notin> set (rel_writes cls ?rs)" for n
    using populate_relationships_other [OF pr that] obj' by simp
  have "map_of obj' n = Some v"
    if "n \<notin> set (rel_writes cls ?rs)" "map_of (rev (attr_writes (model cls) kvs)) n = Some v"
    for n v
    using frame [OF that(1)] populate_attributes_value [OF pa [unfolded e1], of n] that(2)
    by simp
  with kvs pa e1 frame show ?thesis by blast
qed

lemma populate_ex_missing_author:
  "populate ex_article_class
     \<lparr>p_attributes = Some [(''title'', PStr ''New'')],
      p_relationships = Some [(''author'', DataOne (PStr ''42''))]\<rparr>
     (Some ex_article) =
   (Inl (ValidationError
      [(''author'', ''Relationship \"author\" object ID 42 does not exist'')]),
    dict_set ex_article ''title'' (PStr ''New''))"
  by (simp add: populate_def populate_relationship_def populate_one_def get_field_def
        manager_get_def one_message_def setattr_def ex_article_class_def ex_article_model_def
        ex_author_table_def ex_article_def)

theorem populate_not_atomic_witness:
  "populate ex_article_class
     \<lparr>p_attributes = Some [(''title'', PStr ''New'')],
      p_relationships = Some [(''author'', DataOne (PStr ''42''))]\<rparr>
     (Some ex_article) =
   (Inl (ValidationError
      [(''author'', ''Relationship \"author\" object ID 42 does not exist'')]),
    dict_set ex_article ''title'' (PStr ''New''))
   \<and> map_of ex_article ''title'' = Some (PStr ''Old'')
   \<and> map_of (dict_set ex_article ''title'' (PStr ''New'')) ''title'' = Some (PStr ''New'')"
proof -
  have w: "attr_writes (model ex_article_class) [(''title'', PStr ''New'')] =
      [(''title'', PStr ''New'')]"
    by (simp add: attr_writes_def attr_write_def map_filter_simps get_field_def
          ex_article_class_def ex_article_model_def)
  have r: "rel_writes ex_article_class [(''author'', DataOne (PStr ''42''))] =
      [''save_relationships'', ''author_id'']"
    by (simp add: rel_writes_def rel_write_def map_filter_simps get_field_def
          ex_article_class_def ex_article_model_def)
  from populate_not_atomic [OF populate_ex_missing_author] obtain kvs where
    a: "p_attributes \<lparr>p_attributes = Some [(''title'', PStr ''New'')],
          p_relationships = Some [(''author'', DataOne (PStr ''42''))]\<rparr> = Some kvs" and
    c: "\<forall>n v. n \<notin> set (rel_writes ex_article_class
            (case p_relationships \<lparr>p_attributes = Some [(''title'', PStr ''New'')],
               p_relationships = Some [(''author'', DataOne (PStr ''42''))]\<rparr> of
               None \<Rightarrow> [] | Some rs \<Rightarrow> rs))
          \<longrightarrow> map_of (rev (attr_writes (model ex_article_class) kvs)) n = Some v
          \<longrightarrow> map_of (dict_set ex_article ''title'' (PStr ''New'')) n = Some v"
    by blast
  from a have "kvs = [(''title'', PStr ''New'')]" by simp
  with c
  have "\<forall>n v. n \<notin> set (rel_writes ex_article_class [(''author'', DataOne (PStr ''42''))])
          \<longrightarrow> map_of (rev (attr_writes (model ex_article_class) [(''title'', PStr ''New'')])) n
                = Some v
          \<longrightarrow> map_of (dict_set ex_article ''title'' (PStr ''New'')) n = Some v"
    by simp
  then have "map_of (dict_set ex_article ''title'' (PStr ''New'')) ''title'' = Some (PStr ''New'')"
    unfolding w r by simp
  moreover have "map_of ex_article ''title'' = Some (PStr ''Old'')"
    by (simp add: ex_article_def)
  ultimately show ?thesis using populate_ex_missing_author by simp
qed

section \<open>Populate: relationships\<close>

text \<open>
  A call of \<^verbatim>\<open>populate\<close> that gets as far as a relationship of the payload: the
  attribute loop has ended without an exception and so have the rounds for the
  relationships before it. The call then goes on with the round for this relationship
  and, if that raises nothing, with the rounds for the rest.
\<close>

lemma populate_reaches:
  assumes "p_attributes data = Some kvs"
    and "populate_attributes (model cls) kvs
           (case obj of None \<Rightarrow> new_instance (model cls) | Some o' \<Rightarrow> o') = (None, obj1)"
    and "p_relationships data = Some (pre @ kv # post)"
    and "populate_relationships cls pre \<lparr>ps_obj = obj1, ps_attached = False\<rparr> = (None, st)"
  shows "populate cls data obj =
    (case populate_relationship cls st kv of
       (Some e, st') \<Rightarrow> (Inl e, ps_obj st')
     | (None, st') \<Rightarrow>
         (case populate_relationships cls post st' of
            (Some e, st'') \<Rightarrow> (Inl e, ps_obj st'')
          | (None, st'') \<Rightarrow> (Inr (Resource cls (PObj (ps_obj st''))), ps_obj st'')))"
proof -
  have "populate_relationships cls (pre @ kv # post) \<lparr>ps_obj = obj1, ps_attached = False\<rparr> =
      (case populate_relationship cls st kv of
         (Some e, st') \<Rightarrow> (Some e, st')
       | (None, st') \<Rightarrow> populate_relationships cls post st')"
    using assms(4) by (simp add: populate_relationships_append)
  with assms(1,2,3) show ?thesis
    by (simp add: populate_def Let_def split: prod.splits option.splits)
qed

lemma populate_one_eval:
  assumes "get_field (model cls) a = Inr f" and "field_rel f = Inr r"
    and "field_attname f = Inr an"
  shows "populate_one cls st k a (DataOne i) =
    (case manager_get (rel_to r) i of
       None \<Rightarrow> (Some (ValidationError [(k, one_message k i)]), st)
     | Some o' \<Rightarrow> (None, st\<lparr>ps_obj := setattr (ps_obj st) an (PObj o')\<rparr>))"
  using assms by (simp add: populate_one_def split: option.splits)

text \<open>
  The round of a to-one relationship \<open>k\<close> whose payload names the id \<open>i\<close>, the
  relationship's field being a forward field with a related model. The target is fetched
  by \<^verbatim>\<open>get(pk=i)\<close>. When there is none, the call raises the ValidationError whose one
  key is \<open>k\<close> and whose message names the id. When there is one, the round raises
  nothing and line 56 writes the fetched object under \<^verbatim>\<open>f.attname\<close>, the storage
  attribute of the field.
\<close>

lemma populate_one_round:
  assumes "p_attributes data = Some kvs"
    and "populate_attributes (model cls) kvs
           (case obj of None \<Rightarrow> new_instance (model cls) | Some o' \<Rightarrow> o') = (None, obj1)"
    and "p_relationships data = Some (pre @ (k, DataOne i) # post)"
    and "populate_relationships cls pre \<lparr>ps_obj = obj1, ps_attached = False\<rparr> = (None, st)"
    and "map_of (relationships cls) k = Some rel" and "\<not> collection rel"
    and "get_field (model cls) (case attr rel of Some a' \<Rightarrow> a' | None \<Rightarrow> k) = Inr f"
    and "field_rel f = Inr r" and "field_attname f = Inr an"
  shows "(manager_get (rel_to r) i = None \<longrightarrow>
            populate cls data obj =
              (Inl (ValidationError [(k, one_message k i)]), ps_obj st))
    \<and> (\<forall>o'. manager_get (rel_to r) i = Some o' \<longrightarrow>
          populate_relationship cls st (k, DataOne i) =
            (None, st\<lparr>ps_obj := setattr (ps_obj st) an (PObj o')\<rparr>)
          \<and> map_of (setattr (ps_obj st) an (PObj o')) an = Some (PObj o')
          \<and> populate cls data obj =
              (case populate_relationships cls post
                      (st\<lparr>ps_obj := setattr (ps_obj st) an (PObj o')\<rparr>) of
                 (Some e, st') \<Rightarrow> (Inl e, ps_obj st')
               | (None, st') \<Rightarrow> (Inr (Resource cls (PObj (ps_obj st'))), ps_obj st')))"
proof -
  have step: "populate_relationship cls st (k, DataOne i) =
      (case manager_get (rel_to r) i of
         None \<Rightarrow> (Some (ValidationError [(k, one_message k i)]), st)
       | Some o' \<Rightarrow> (None, st\<lparr>ps_obj := setattr (ps_obj st) an (PObj o')\<rparr>))"
    using assms(5,6) populate_one_eval [OF assms(7,8,9)]
    by (cases "attr rel") (simp_all add: populate_relationship_def)
  note reach = populate_reaches [OF assms(1,2,3,4)]
  show ?thesis
  proof (intro conjI impI allI)
    assume "manager_get (rel_to r) i = None"
    with step reach show "populate cls data obj =
        (Inl (ValidationError [(k, one_message k i)]), ps_obj st)"
      by simp
  next
    fix o'
    assume "manager_get (rel_to r) i = Some o'"
    with step show "populate_relationship cls st (k, DataOne i) =
        (None, st\<lparr>ps_obj := setattr (ps_obj st) an (PObj o')\<rparr>)"
      by simp
  next
    fix o'
    show "map_of (setattr (ps_obj st) an (PObj o')) an = Some (PObj o')"
      by (simp add: setattr_def map_of_dict_set)
  next
    fix o'
    assume "manager_get (rel_to r) i = Some o'"
    with step reach show "populate cls data obj =
        (case populate_relationships cls post
                (st\<lparr>ps_obj := setattr (ps_obj st) an (PObj o')\<rparr>) of
           (Some e, st') \<Rightarrow> (Inl e, ps_obj st')
         | (None, st') \<Rightarrow> (Inr (Resource cls (PObj (ps_obj st'))), ps_obj st'))"
      by simp
  qed
qed

text \<open>
  C5. The article 3 has no author and the payload names the author 7, who is in the
  store. \<^verbatim>\<open>populate\<close> fetches the author and raises nothing, and its one write to the
  article is that of line 56, \<^verbatim>\<open>setattr(obj, f.attname, o)\<close>: the storage attribute
  \<^verbatim>\<open>author_id\<close> of the foreign key, where the primary key "7" of the author belongs, now
  holds the author object. Nothing is assigned to the relationship field \<^verbatim>\<open>author\<close>.
\<close>

theorem populate_to_one_storage_attribute:
  "get_field (model ex_article_class) ''author'' =
     Inr (Field ''author'' ''author_id''
            (Some \<lparr>rel_to = ex_author_table, rel_model = ex_author_table\<rparr>))
   \<and> manager_get ex_author_table (PStr ''7'') =
       Some [(''id'', PStr ''7''), (''name'', PStr ''Ada'')]
   \<and> populate ex_article_class
        \<lparr>p_attributes = Some [],
         p_relationships = Some [(''author'', DataOne (PStr ''7''))]\<rparr>
        (Some ex_article) =
      (Inr (Resource ex_article_class
         (PObj (setattr ex_article ''author_id''
            (PObj [(''id'', PStr ''7''), (''name'', PStr ''Ada'')])))),
       setattr ex_article ''author_id''
         (PObj [(''id'', PStr ''7''), (''name'', PStr ''Ada'')]))
   \<and> getattr (PObj (setattr ex_article ''author_id''
          (PObj [(''id'', PStr ''7''), (''name'', PStr ''Ada'')]))) ''author_id'' =
       Inr (PObj [(''id'', PStr ''7''), (''name'', PStr ''Ada'')])
   \<and> getattr (PObj (setattr ex_article ''author_id''
          (PObj [(''id'', PStr ''7''), (''name'', PStr ''Ada'')]))) ''author_id'' \<noteq>
       Inr (PStr ''7'')"
  by (simp add: get_field_def manager_get_def ex_author_table_def populate_def
        populate_relationship_def populate_one_def setattr_def
        ex_article_class_def ex_article_model_def ex_article_def)

lemma list_all_is_str_filter:
  "list_all is_str ids \<Longrightarrow> list_all is_str (filter P (remdups ids))"
  by (induction ids) auto

lemma the_str_inj: "is_str x \<Longrightarrow> is_str y \<Longrightarrow> the_str x = the_str y \<Longrightarrow> x = y"
  by (cases x; cases y) simp_all

lemma distinct_map_the_str:
  "list_all is_str xs \<Longrightarrow> distinct xs \<Longrightarrow> distinct (map the_str xs)"
  by (auto simp: distinct_map list_all_iff inj_on_def intro: the_str_inj)

lemma populate_many_eval:
  assumes "get_field (model cls) a = Inr f"
    and "related_accessor (model cls) f = Inr (related, accessor_name)"
    and "qs = manager_filter_pk_in related (remdups ids)"
    and "found_ids qs = Inr found"
    and "list_all is_str ids"
    and "missing = filter (\<lambda>i. i \<notin> set found) (remdups ids)"
  shows "populate_many cls st k a (DataMany ids) =
    (if missing \<noteq> []
     then (Some (ValidationError [(k, many_message k (join '', '' (sort (map the_str missing))))]),
           rebind st accessor_name qs)
     else (None,
           \<lparr>ps_obj = setattr (ps_obj (rebind st accessor_name qs)) ''save_relationships''
                      (PSave accessor_name qs),
            ps_attached = True\<rparr>))"
proof -
  from assms(5,6) have "list_all is_str missing"
    by (simp add: list_all_is_str_filter)
  then have j: "join_sorted missing = Inr (join '', '' (sort (map the_str missing)))"
    by (simp add: join_sorted_def)
  show ?thesis
  proof (cases "missing = []")
    case True
    with assms(1,2,4) assms(3,6) [symmetric] show ?thesis
      by (simp add: populate_many_def Let_def)
  next
    case False
    with assms(1,2,4) assms(3,6) [symmetric] j show ?thesis
      by (simp add: populate_many_def Let_def)
  qed
qed

text \<open>
  The round of a collection relationship \<open>k\<close> whose payload lists the ids \<open>ids\<close>,
  all strings, the related model and the accessor name being found and every fetched
  object having an \<^verbatim>\<open>id\<close>. The objects \<open>qs\<close> are fetched by \<^verbatim>\<open>filter(pk__in=given)\<close>,
  \<open>found\<close> are the values of their \<^verbatim>\<open>id\<close> attributes, and \<open>missing\<close> are the requested
  ids that are not among them. When \<open>missing\<close> is not empty the call raises the
  ValidationError whose one key is \<open>k\<close> and whose message lists \<open>missing\<close>, each id
  once, sorted and joined by a comma and a space. When it is empty the round raises
  nothing and sets \<^verbatim>\<open>obj.save_relationships\<close>. Whether an id in \<open>missing\<close> is missing
  from the store depends on the fetched objects' \<^verbatim>\<open>id\<close> being equal to the string that
  found them.
\<close>

lemma populate_many_round:
  assumes "p_attributes data = Some kvs"
    and "populate_attributes (model cls) kvs
           (case obj of None \<Rightarrow> new_instance (model cls) | Some o' \<Rightarrow> o') = (None, obj1)"
    and "p_relationships data = Some (pre @ (k, DataMany ids) # post)"
    and "populate_relationships cls pre \<lparr>ps_obj = obj1, ps_attached = False\<rparr> = (None, st)"
    and "map_of (relationships cls) k = Some rel" and "collection rel"
    and "get_field (model cls) (case attr rel of Some a' \<Rightarrow> a' | None \<Rightarrow> k) = Inr f"
    and "related_accessor (model cls) f = Inr (related, accessor_name)"
    and "qs = manager_filter_pk_in related (remdups ids)"
    and "found_ids qs = Inr found"
    and "list_all is_str ids"
    and "missing = filter (\<lambda>i. i \<notin> set found) (remdups ids)"
  shows "set missing = set ids - set found
    \<and> (missing \<noteq> [] \<longrightarrow>
          populate cls data obj =
            (Inl (ValidationError
                    [(k, many_message k (join '', '' (sort (map the_str missing))))]),
             ps_obj (rebind st accessor_name qs))
          \<and> sorted (sort (map the_str missing))
          \<and> distinct (sort (map the_str missing))
          \<and> PStr ` set (sort (map the_str missing)) = set ids - set found)
    \<and> (missing = [] \<longrightarrow>
          populate_relationship cls st (k, DataMany ids) =
            (None,
             \<lparr>ps_obj = setattr (ps_obj (rebind st accessor_name qs)) ''save_relationships''
                        (PSave accessor_name qs),
              ps_attached = True\<rparr>))"
proof -
  have step: "populate_relationship cls st (k, DataMany ids) =
    (if missing \<noteq> []
     then (Some (ValidationError [(k, many_message k (join '', '' (sort (map the_str missing))))]),
           rebind st accessor_name qs)
     else (None,
           \<lparr>ps_obj = setattr (ps_obj (rebind st accessor_name qs)) ''save_relationships''
                      (PSave accessor_name qs),
            ps_attached = True\<rparr>))"
    using assms(5,6) populate_many_eval [OF assms(7,8,9,10,11,12)]
    by (cases "attr rel") (simp_all add: populate_relationship_def)
  note reach = populate_reaches [OF assms(1,2,3,4)]
  have m: "set missing = set ids - set found"
    using assms(12) by auto
  have strs: "list_all is_str missing"
    using assms(11,12) by (simp add: list_all_is_str_filter)
  have d: "distinct (sort (map the_str missing))"
    using strs assms(12) by (simp add: distinct_map_the_str)
  have "PStr ` the_str ` set missing = set missing"
  proof -
    have "PStr (the_str x) = x" if "x \<in> set missing" for x
      using strs that by (cases x) (auto simp: list_all_iff)
    then show ?thesis by (auto simp: image_iff)
  qed
  with m have s: "PStr ` set (sort (map the_str missing)) = set ids - set found"
    by simp
  show ?thesis
  proof (intro conjI impI)
    show "set missing = set ids - set found" by (rule m)
  next
    assume "missing \<noteq> []"
    with step reach show "populate cls data obj =
        (Inl (ValidationError [(k, many_message k (join '', '' (sort (map the_str missing))))]),
         ps_obj (rebind st accessor_name qs))"
      by simp
  next
    show "sorted (sort (map the_str missing))" by simp
  next
    show "distinct (sort (map the_str missing))" by (rule d)
  next
    show "PStr ` set (sort (map the_str missing)) = set ids - set found" by (rule s)
  next
    assume "missing = []"
    with step show "populate_relationship cls st (k, DataMany ids) =
        (None,
         \<lparr>ps_obj = setattr (ps_obj (rebind st accessor_name qs)) ''save_relationships''
                    (PSave accessor_name qs),
          ps_attached = True\<rparr>)"
      by simp
  qed
qed

text \<open>
  With string primary keys the round does what its message says: of the ids 3, 1 and 9,
  where only the tag 1 is in the store, the message lists 3 and 9.
\<close>

lemma populate_many_string_keys:
  "populate ex_article_class
     \<lparr>p_attributes = Some [],
      p_relationships = Some [(''tags'', DataMany [PStr ''3'', PStr ''1'', PStr ''9''])]\<rparr>
     None =
   (Inl (ValidationError
      [(''tags'', ''Relationship \"tags\" object IDs 3, 9 do not exist'')]),
    new_instance ex_article_model)
   \<and> manager_filter_pk_in ex_tag_table [PStr ''3'', PStr ''1'', PStr ''9''] = [[(''id'', PStr ''1'')]]
   \<and> populate_relationship ex_article_class
        \<lparr>ps_obj = new_instance ex_article_model, ps_attached = False\<rparr>
        (''tags'', DataMany [PStr ''1'']) =
      (None,
       \<lparr>ps_obj = setattr (new_instance ex_article_model) ''save_relationships''
                  (PSave ''tags'' [[(''id'', PStr ''1'')]]),
        ps_attached = True\<rparr>)"
proof -
  let ?f = "Field ''tags'' ''tags'' (Some \<lparr>rel_to = ex_tag_table, rel_model = ex_tag_table\<rparr>)"
  let ?st = "\<lparr>ps_obj = new_instance ex_article_model, ps_attached = False\<rparr>"
  have pa: "populate_attributes (model ex_article_class) []
      (case None of None \<Rightarrow> new_instance (model ex_article_class) | Some o' \<Rightarrow> o') =
      (None, new_instance ex_article_model)"
    by (simp add: ex_article_class_def)
  have pre: "populate_relationships ex_article_class []
      \<lparr>ps_obj = new_instance ex_article_model, ps_attached = False\<rparr> = (None, ?st)"
    by simp
  have rel: "map_of (relationships ex_article_class) ''tags'' = Some (Rel ex_tag_class True None)"
    by (simp add: ex_article_class_def)
  have f: "get_field (model ex_article_class)
      (case attr (Rel ex_tag_class True None) of Some a' \<Rightarrow> a' | None \<Rightarrow> ''tags'') = Inr ?f"
    by (simp add: get_field_def ex_article_class_def ex_article_model_def)
  have ra: "related_accessor (model ex_article_class) ?f = Inr (ex_tag_table, ''tags'')"
    by (simp add: related_accessor_def ex_article_class_def ex_article_model_def)
  have qs3: "[[(''id'', PStr ''1'')]] =
      manager_filter_pk_in ex_tag_table (remdups [PStr ''3'', PStr ''1'', PStr ''9''])"
    and qs1: "[[(''id'', PStr ''1'')]] = manager_filter_pk_in ex_tag_table (remdups [PStr ''1''])"
    by (simp_all add: manager_filter_pk_in_def ex_tag_table_def)
  have fi: "found_ids [[(''id'', PStr ''1'')]] = Inr [PStr ''1'']"
    by simp
  have m3: "[PStr ''3'', PStr ''9''] =
      filter (\<lambda>i. i \<notin> set [PStr ''1'']) (remdups [PStr ''3'', PStr ''1'', PStr ''9''])"
    and m1: "[] = filter (\<lambda>i. i \<notin> set [PStr ''1'']) (remdups [PStr ''1''])"
    by simp_all
  have srt: "sort (map the_str [PStr ''3'', PStr ''9'']) = [''3'', ''9'']"
    by code_simp
  have msg: "many_message ''tags'' (join '', '' [''3'', ''9'']) =
      ''Relationship \"tags\" object IDs 3, 9 do not exist''"
    by (simp add: many_message_def)
  have rb: "rebind ?st ''tags'' [[(''id'', PStr ''1'')]] = ?st"
    by (simp add: rebind_def)
  have "populate ex_article_class
     \<lparr>p_attributes = Some [],
      p_relationships = Some ([] @ (''tags'', DataMany [PStr ''3'', PStr ''1'', PStr ''9'']) # [])\<rparr>
     None =
     (Inl (ValidationError [(''tags'', many_message ''tags''
        (join '', '' (sort (map the_str [PStr ''3'', PStr ''9'']))))]),
      ps_obj (rebind ?st ''tags'' [[(''id'', PStr ''1'')]]))"
    using populate_many_round [OF _ pa _ pre rel _ f ra qs3 fi _ m3,
        of "\<lparr>p_attributes = Some [],
            p_relationships =
              Some ([] @ (''tags'', DataMany [PStr ''3'', PStr ''1'', PStr ''9'']) # [])\<rparr>"
           "[]"]
    by simp
  moreover have "populate_relationship ex_article_class ?st (''tags'', DataMany [PStr ''1'']) =
      (None,
       \<lparr>ps_obj = setattr (ps_obj (rebind ?st ''tags'' [[(''id'', PStr ''1'')]]))
                  ''save_relationships'' (PSave ''tags'' [[(''id'', PStr ''1'')]]),
        ps_attached = True\<rparr>)"
    using populate_many_round [OF _ pa _ pre rel _ f ra qs1 fi _ m1,
        of "\<lparr>p_attributes = Some [],
            p_relationships = Some ([] @ (''tags'', DataMany [PStr ''1'']) # [])\<rparr>" "[]"]
    by simp
  moreover have "manager_filter_pk_in ex_tag_table [PStr ''3'', PStr ''1'', PStr ''9''] =
      [[(''id'', PStr ''1'')]]"
    by (simp add: manager_filter_pk_in_def ex_tag_table_def)
  ultimately show ?thesis
    unfolding srt msg rb by simp
qed

lemma sort_ex_ids: "sort [''3'', ''1'', ''9''] = [''1'', ''3'', ''9'']"
  by code_simp

text \<open>
  C2. The tags have integer primary keys and the tag 1 is in the store. The payload's
  ids are strings; \<^verbatim>\<open>filter(pk__in=given)\<close> fetches the tag 1, whose \<^verbatim>\<open>id\<close> is the
  integer 1, and \<^verbatim>\<open>given.difference(found)\<close> compares the string with the integer. So
  the tag that was fetched is reported as missing: a payload that names only the tag 1
  raises the ValidationError, and of the ids 3, 1 and 9 the message lists all three.
\<close>

theorem populate_to_many_integer_keys:
  "manager_filter_pk_in ex_int_tag_table [PStr ''1''] = [[(''id'', PInt 1)]]
   \<and> populate ex_post_class
        \<lparr>p_attributes = Some [],
         p_relationships = Some [(''tags'', DataMany [PStr ''1''])]\<rparr> None =
      (Inl (ValidationError [(''tags'', ''Relationship \"tags\" object IDs 1 do not exist'')]),
       new_instance ex_post_model)
   \<and> manager_filter_pk_in ex_int_tag_table [PStr ''3'', PStr ''1'', PStr ''9''] =
        [[(''id'', PInt 1)]]
   \<and> populate ex_post_class
        \<lparr>p_attributes = Some [],
         p_relationships = Some [(''tags'', DataMany [PStr ''3'', PStr ''1'', PStr ''9''])]\<rparr>
        None =
      (Inl (ValidationError
         [(''tags'', ''Relationship \"tags\" object IDs 1, 3, 9 do not exist'')]),
       new_instance ex_post_model)"
  using sort_ex_ids
  by (simp add: manager_filter_pk_in_def ex_int_tag_table_def populate_def
        populate_relationship_def populate_many_def Let_def get_field_def related_accessor_def
        ex_post_class_def ex_post_model_def join_sorted_def many_message_def rebind_def)

text \<open>
  C3. A payload with two collection relationships, \<^verbatim>\<open>tags\<close> and \<^verbatim>\<open>comments\<close>, whose ids all
  exist. Each round assigns \<^verbatim>\<open>obj.save_relationships\<close>, so after the call the object
  holds one closure, that of \<^verbatim>\<open>comments\<close>. Calling it with the object adds the comment to
  \<^verbatim>\<open>comments\<close> and leaves \<^verbatim>\<open>tags\<close> empty: the fetched tag is never written.
\<close>

theorem populate_two_collections:
  "populate ex_article_class
     \<lparr>p_attributes = Some [],
      p_relationships =
        Some [(''tags'', DataMany [PStr ''1'']), (''comments'', DataMany [PStr ''5''])]\<rparr>
     None =
   (Inr (Resource ex_article_class (PObj ex_populated)), ex_populated)
   \<and> manager_filter_pk_in ex_tag_table [PStr ''1''] = [[(''id'', PStr ''1'')]]
   \<and> map_of ex_populated ''save_relationships'' =
       Some (PSave ''comments'' [[(''id'', PStr ''5''), (''replies'', PManager [])]])
   \<and> call_save_relationships ex_populated [PObj ex_populated] =
      Inr (PObj
        [(''id'', PNone), (''title'', PStr ''''), (''author_id'', PNone), (''author'', PNone),
         (''tags'', PManager []),
         (''comments'', PManager [[(''id'', PStr ''5''), (''replies'', PManager [])]]),
         (''save_relationships'',
          PSave ''comments'' [[(''id'', PStr ''5''), (''replies'', PManager [])]])])"
  by (simp add: populate_def populate_relationship_def populate_many_def related_accessor_def
        get_field_def manager_filter_pk_in_def rebind_def setattr_def save_def manager_add_def
        ex_article_class_def ex_article_model_def ex_tag_table_def ex_comment_table_def
        ex_populated_def)

section \<open>Attribute round trip\<close>

lemma attr_writes_mem:
  "(a, v') \<in> set (attr_writes m kvs) \<Longrightarrow>
   \<exists>k0. (k0, v') \<in> set kvs \<and> attr_write m (k0, v') = Some (a, v')"
proof (induction kvs)
  case Nil
  then show ?case by (simp add: attr_writes_def)
next
  case (Cons kv kvs)
  show ?case
  proof (cases "attr_write m kv")
    case None
    with Cons show ?thesis by (auto simp: attr_writes_def)
  next
    case (Some w)
    then have "snd w = snd kv"
      by (auto simp: attr_write_def split: sum.splits)
    with Some Cons show ?thesis
      by (cases kv; cases w) (auto simp: attr_writes_def)
  qed
qed

lemma attr_writes_has:
  "(k0, v) \<in> set kvs \<Longrightarrow> attr_write m (k0, v) = Some (a, v) \<Longrightarrow>
   (a, v) \<in> set (attr_writes m kvs)"
  by (induction kvs) (auto simp: attr_writes_def split: option.splits)

lemma attr_writes_last:
  assumes "(k, v) \<in> set kvs" and "distinct (map fst kvs)"
    and "get_field m k = Inr f" and "field_attname f = Inr k"
    and "\<forall>k'\<in>fst ` set kvs. k' \<noteq> k \<longrightarrow>
           (\<forall>f'. get_field m k' = Inr f' \<longrightarrow> field_attname f' \<noteq> Inr k)"
  shows "map_of (rev (attr_writes m kvs)) k = Some v"
proof -
  from assms(3,4) have "attr_write m (k, v) = Some (k, v)"
    by (simp add: attr_write_def)
  from attr_writes_has [OF assms(1) this] have "(k, v) \<in> set (rev (attr_writes m kvs))"
    by simp
  from weak_map_of_SomeI [OF this] obtain x where
    x: "map_of (rev (attr_writes m kvs)) k = Some x" ..
  then have "(k, x) \<in> set (attr_writes m kvs)"
    by (auto dest: map_of_SomeD)
  from attr_writes_mem [OF this] obtain k0 where
    k0: "(k0, x) \<in> set kvs" "attr_write m (k0, x) = Some (k, x)"
    by blast
  have "k0 = k"
  proof (rule ccontr)
    assume "k0 \<noteq> k"
    with k0(1) assms(5) have "\<forall>f'. get_field m k0 = Inr f' \<longrightarrow> field_attname f' \<noteq> Inr k"
      by force
    with k0(2) show False
      by (auto simp: attr_write_def split: sum.splits)
  qed
  with k0(1) assms(1,2) have "x = v"
    by (auto dest: eq_key_imp_eq_value)
  with x show ?thesis by simp
qed

lemma serializable_attributes_value:
  assumes "serializable_attributes obj as acc = Inr atts" and "getattr obj k = Inr v"
    and "k \<in> set as \<or> map_of acc k = Some v"
  shows "map_of atts k = Some v"
  using assms
proof (induction as arbitrary: acc)
  case Nil
  then show ?case by simp
next
  case (Cons a as)
  from Cons.prems(1) obtain va where
    va: "getattr obj a = Inr va" and
    rest: "serializable_attributes obj as (dict_set acc a va) = Inr atts"
    by (auto split: sum.splits)
  have "k \<in> set as \<or> map_of (dict_set acc a va) k = Some v"
  proof (cases "k = a")
    case True
    with va Cons.prems(2) show ?thesis by (simp add: map_of_dict_set)
  next
    case False
    with Cons.prems(3) show ?thesis by (auto simp: map_of_dict_set)
  qed
  from Cons.IH [OF rest Cons.prems(2) this] show ?case .
qed

text \<open>
  C9. A payload whose attributes (the items of a dictionary, so the keys are distinct) map
  a declared attribute \<open>k\<close> to \<open>v\<close>, where \<open>k\<close> names a plain column of the model: a
  field without a relation, stored under its own name. No other key of the payload is
  stored under that name and no relationship of the payload is. When \<^verbatim>\<open>populate\<close>
  returns a resource and \<^verbatim>\<open>serializable\<close> of that resource returns a fragment, the
  fragment's attributes map \<open>k\<close> to \<open>v\<close>.
\<close>

theorem attribute_round_trip:
  assumes "p_attributes data = Some kvs" and "(k, v) \<in> set kvs" and "distinct (map fst kvs)"
    and "get_field (model cls) k = Inr (Field k k None)"
    and "\<forall>k'\<in>fst ` set kvs. k' \<noteq> k \<longrightarrow>
           (\<forall>f'. get_field (model cls) k' = Inr f' \<longrightarrow> field_attname f' \<noteq> Inr k)"
    and "k \<in> set (attributes cls)"
    and "k \<notin> set (rel_writes cls (case p_relationships data of None \<Rightarrow> [] | Some rs \<Rightarrow> rs))"
    and "populate cls data obj = (Inr r, obj')"
    and "serializable reverse r inc request = (Inr out, inc')"
  shows "map_of (f_attributes out) k = Some v"
proof -
  let ?rs = "case p_relationships data of None \<Rightarrow> [] | Some rs \<Rightarrow> rs"
  let ?obj0 = "case obj of None \<Rightarrow> new_instance (model cls) | Some o' \<Rightarrow> o'"
  have fa: "field_attname (Field k k None) = Inr k" by simp
  obtain e1 obj1 where pa: "populate_attributes (model cls) kvs ?obj0 = (e1, obj1)"
    by (cases "populate_attributes (model cls) kvs ?obj0")
  have e1: "e1 = None"
    using assms(1,8) pa by (cases e1) (simp_all add: populate_def)
  obtain e2 st where pr:
    "populate_relationships cls ?rs \<lparr>ps_obj = obj1, ps_attached = False\<rparr> = (e2, st)"
    by (cases "populate_relationships cls ?rs \<lparr>ps_obj = obj1, ps_attached = False\<rparr>")
  from assms(1,8) pa e1 pr have r: "r = Resource cls (PObj (ps_obj st))"
    by (cases e2) (auto simp: populate_def)
  from populate_attributes_value [OF pa [unfolded e1], of k]
    attr_writes_last [OF assms(2,3,4) fa assms(5)]
  have "map_of obj1 k = Some v" by simp
  with populate_relationships_other [OF pr assms(7)]
  have "getattr (robj r) k = Inr v" by (simp add: r)
  moreover from serializable_parts(1) [OF assms(9)] r
  have "serializable_attributes (robj r) (attributes cls) [] = Inr (f_attributes out)"
    by simp
  ultimately show ?thesis
    using assms(6) by (auto intro: serializable_attributes_value)
qed

theorem attribute_round_trip_witness:
  "populate ex_author_class
     \<lparr>p_attributes = Some [(''name'', PStr ''Ada'')], p_relationships = None\<rparr> None =
   (Inr (Resource ex_author_class (PObj [(''id'', PNone), (''name'', PStr ''Ada'')])),
    [(''id'', PNone), (''name'', PStr ''Ada'')])
   \<and> serializable ex_reverse
        (Resource ex_author_class (PObj [(''id'', PNone), (''name'', PStr ''Ada'')])) None None =
      (Inr \<lparr>f_attributes = [(''name'', PStr ''Ada'')], f_links = None, f_type = ''author'',
            f_id = ''None'', f_relationships = None\<rparr>,
       None)
   \<and> map_of (f_attributes
        \<lparr>f_attributes = [(''name'', PStr ''Ada'')], f_links = None, f_type = ''author'',
         f_id = ''None'', f_relationships = None\<rparr>) ''name'' = Some (PStr ''Ada'')"
proof -
  let ?data = "\<lparr>p_attributes = Some [(''name'', PStr ''Ada'')], p_relationships = None\<rparr>"
  have p: "populate ex_author_class ?data None =
     (Inr (Resource ex_author_class (PObj [(''id'', PNone), (''name'', PStr ''Ada'')])),
      [(''id'', PNone), (''name'', PStr ''Ada'')])"
    by (simp add: populate_def get_field_def setattr_def ex_author_class_def ex_author_model_def)
  have s: "serializable ex_reverse
        (Resource ex_author_class (PObj [(''id'', PNone), (''name'', PStr ''Ada'')])) None None =
      (Inr \<lparr>f_attributes = [(''name'', PStr ''Ada'')], f_links = None, f_type = ''author'',
            f_id = ''None'', f_relationships = None\<rparr>,
       None)"
    by (simp add: serializable_def get_identifier_def obj_id_def ex_author_class_def)
  have a: "p_attributes ?data = Some [(''name'', PStr ''Ada'')]"
    and m: "(''name'', PStr ''Ada'') \<in> set [(''name'', PStr ''Ada'')]"
    and d: "distinct (map fst [(''name'', PStr ''Ada'')])"
    by simp_all
  have f: "get_field (model ex_author_class) ''name'' = Inr (Field ''name'' ''name'' None)"
    by (simp add: get_field_def ex_author_class_def ex_author_model_def)
  have o: "\<forall>k'\<in>fst ` set [(''name'', PStr ''Ada'')]. k' \<noteq> ''name'' \<longrightarrow>
      (\<forall>f'. get_field (model ex_author_class) k' = Inr f' \<longrightarrow> field_attname f' \<noteq> Inr ''name'')"
    by simp
  have decl: "''name'' \<in> set (attributes ex_author_class)"
    by (simp add: ex_author_class_def)
  have w: "''name'' \<notin> set (rel_writes ex_author_class
      (case p_relationships ?data of None \<Rightarrow> [] | Some rs \<Rightarrow> rs))"
    by (simp add: rel_writes_def)
  from attribute_round_trip [OF a m d f o decl w p s] p s show ?thesis by simp
qed

text \<open>
  The restriction to plain columns is needed: a declared attribute that is backed by a
  foreign key does not come back. The article 4 has the author 7; the resource class
  declares \<^verbatim>\<open>author\<close> as an attribute and the payload gives it the value "7". Line 41
  writes the storage attribute \<^verbatim>\<open>author_id\<close>, line 146 reads \<^verbatim>\<open>author\<close>, and the
  fragment's attributes map \<^verbatim>\<open>author\<close> to the related object, not to "7".
\<close>

theorem attribute_round_trip_foreign_key:
  "''author'' \<in> set (attributes ex_byline_class)
   \<and> populate ex_byline_class
        \<lparr>p_attributes = Some [(''author'', PStr ''7'')], p_relationships = None\<rparr>
        (Some ex_article_with_author) =
      (Inr (Resource ex_byline_class (PObj ex_article_with_author)), ex_article_with_author)
   \<and> serializable ex_reverse (Resource ex_byline_class (PObj ex_article_with_author))
        None None =
      (Inr \<lparr>f_attributes =
              [(''title'', PStr ''Notes''),
               (''author'', PObj [(''id'', PStr ''7''), (''name'', PStr ''Ada'')])],
            f_links = None, f_type = ''article'', f_id = ''4'', f_relationships = None\<rparr>,
       None)
   \<and> map_of (f_attributes
        \<lparr>f_attributes =
              [(''title'', PStr ''Notes''),
               (''author'', PObj [(''id'', PStr ''7''), (''name'', PStr ''Ada'')])],
            f_links = None, f_type = ''article'', f_id = ''4'', f_relationships = None\<rparr>)
        ''author'' \<noteq> Some (PStr ''7'')"
  using py_str_ex_ids(2)
  by (simp add: populate_def Let_def get_field_def setattr_def serializable_def
        get_identifier_def obj_id_def ex_byline_class_def ex_article_model_def
        ex_article_with_author_def)

end
